theory Spec2Isabelle
  imports Complex_Main "HOL-Library.Word" "HOL-Library.Char_ord" "HOL-Library.List_Lexorder"
    "HOL-Library.Sublist"
begin

unbundle bit_operations_syntax

section \<open>Text primitives of the volume reduction pipeline\<close>

text \<open>
  The pipeline of \<^verbatim>\<open>app/volume_reduction_pipeline.py\<close> works on Python strings.
  A Python \<^verbatim>\<open>str\<close> is modelled as a \<^typ>\<open>string\<close> whose characters are the code
  points below 256 (Latin-1); the character classes below are Python's classes
  restricted to that range.
\<close>

definition ord :: "char \<Rightarrow> nat" where
  "ord c = of_char c"

text \<open>Python's \<^verbatim>\<open>\s\<close> and \<^verbatim>\<open>str.isspace\<close>.\<close>

definition is_space :: "char \<Rightarrow> bool" where
  "is_space c = (let n = ord c in
     (9 \<le> n \<and> n \<le> 13) \<or> (28 \<le> n \<and> n \<le> 32) \<or> n = 133 \<or> n = 160)"

definition is_lower_ascii :: "char \<Rightarrow> bool" where
  "is_lower_ascii c = (let n = ord c in 97 \<le> n \<and> n \<le> 122)"

text \<open>Python's \<^verbatim>\<open>\w\<close> on a \<^verbatim>\<open>str\<close> pattern: alphanumerics and the underscore.\<close>

definition is_word :: "char \<Rightarrow> bool" where
  "is_word c = (let n = ord c in
     (48 \<le> n \<and> n \<le> 57) \<or> (65 \<le> n \<and> n \<le> 90) \<or> n = 95 \<or> (97 \<le> n \<and> n \<le> 122) \<or>
     n = 170 \<or> n = 178 \<or> n = 179 \<or> n = 181 \<or> n = 185 \<or> n = 186 \<or>
     (188 \<le> n \<and> n \<le> 190) \<or> (192 \<le> n \<and> n \<le> 214) \<or> (216 \<le> n \<and> n \<le> 246) \<or>
     248 \<le> n)"

text \<open>\<^verbatim>\<open>str.lower\<close>, character by character.\<close>

definition lower_char :: "char \<Rightarrow> char" where
  "lower_char c = (let n = ord c in
     if (65 \<le> n \<and> n \<le> 90) \<or> (192 \<le> n \<and> n \<le> 214) \<or> (216 \<le> n \<and> n \<le> 222)
     then char_of (n + 32) else c)"

definition lower :: "string \<Rightarrow> string" where
  "lower s = map lower_char s"

text \<open>\<^verbatim>\<open>str.strip()\<close>: whitespace is removed at both ends.\<close>

definition strip :: "string \<Rightarrow> string" where
  "strip s = rev (dropWhile is_space (rev (dropWhile is_space s)))"

text \<open>\<^verbatim>\<open>str.split()\<close>: the maximal runs of non-whitespace characters.\<close>

fun split_ws :: "string \<Rightarrow> string \<Rightarrow> string list" where
  "split_ws acc [] = (if acc = [] then [] else [rev acc])"
| "split_ws acc (c # cs) =
     (if is_space c then (if acc = [] then split_ws [] cs else rev acc # split_ws [] cs)
      else split_ws (c # acc) cs)"

definition split :: "string \<Rightarrow> string list" where
  "split s = split_ws [] s"

text \<open>\<^verbatim>\<open>sep.join(xs)\<close>.\<close>

fun join :: "string \<Rightarrow> string list \<Rightarrow> string" where
  "join sep [] = []"
| "join sep [x] = x"
| "join sep (x # y # ys) = x @ sep @ join sep (y # ys)"

subsection \<open>Regular expressions\<close>

text \<open>
  The patterns of the source are regular expressions of Python's \<^verbatim>\<open>re\<close> module. They are
  kept as data: every repetition in them ranges over a single character class, so a
  repetition carries an atom. Alternatives are tried in order and repetitions are greedy,
  as in \<^verbatim>\<open>re\<close>.
\<close>

datatype atom =
    Chr char
  | Dot
  | WordC
  | SpaceC
  | Rng char char
  | OneOf "atom list"
  | NoneOf "atom list"

datatype rx =
    Atom atom
  | Lit string
  | Seq rx rx
  | Alt rx rx
  | Star atom
  | Plus atom
  | AtLeast nat atom
  | Bol
  | Eol
  | WordB

text \<open>
  One character against an atom. The flag is \<^verbatim>\<open>re.IGNORECASE\<close>: a literal and a range
  then also match the other case of the character.
\<close>

definition upper_char_ascii :: "char \<Rightarrow> char" where
  "upper_char_ascii c = (if is_lower_ascii c then char_of (ord c - 32) else c)"

definition in_rng :: "char \<Rightarrow> char \<Rightarrow> char \<Rightarrow> bool" where
  "in_rng lo hi c = (ord lo \<le> ord c \<and> ord c \<le> ord hi)"

fun amatch :: "bool \<Rightarrow> atom \<Rightarrow> char \<Rightarrow> bool" where
  "amatch ic (Chr x) c = (if ic then lower_char x = lower_char c else x = c)"
| "amatch ic Dot c = (ord c \<noteq> 10)"
| "amatch ic WordC c = is_word c"
| "amatch ic SpaceC c = is_space c"
| "amatch ic (Rng lo hi) c =
     (if ic then in_rng lo hi c \<or> in_rng lo hi (lower_char c) \<or> in_rng lo hi (upper_char_ascii c)
      else in_rng lo hi c)"
| "amatch ic (OneOf as) c = (\<exists>a \<in> set as. amatch ic a c)"
| "amatch ic (NoneOf as) c = (\<not> (\<exists>a \<in> set as. amatch ic a c))"

text \<open>
  A position in the subject: the character before it (if any) and the rest of the
  subject. That is all \<^verbatim>\<open>^\<close>, \<^verbatim>\<open>$\<close> and \<^verbatim>\<open>\b\<close> look at.
\<close>

type_synonym pos = "char option \<times> string"

definition word_before :: "pos \<Rightarrow> bool" where
  "word_before p = (case fst p of None \<Rightarrow> False | Some c \<Rightarrow> is_word c)"

definition word_after :: "pos \<Rightarrow> bool" where
  "word_after p = (case snd p of [] \<Rightarrow> False | c # _ \<Rightarrow> is_word c)"

fun lit_ends :: "bool \<Rightarrow> string \<Rightarrow> pos \<Rightarrow> pos list" where
  "lit_ends ic [] p = [p]"
| "lit_ends ic (x # xs) (q, []) = []"
| "lit_ends ic (x # xs) (q, c # cs) =
     (if amatch ic (Chr x) c then lit_ends ic xs (Some c, cs) else [])"

text \<open>Greedy repetition of an atom: the longest run first, then each shorter one.\<close>

fun star_ends :: "bool \<Rightarrow> atom \<Rightarrow> pos \<Rightarrow> pos list" where
  "star_ends ic a (q, []) = [(q, [])]"
| "star_ends ic a (q, c # cs) =
     (if amatch ic a c then star_ends ic a (Some c, cs) @ [(q, c # cs)] else [(q, c # cs)])"

fun atom_ends :: "bool \<Rightarrow> atom \<Rightarrow> pos \<Rightarrow> pos list" where
  "atom_ends ic a (q, []) = []"
| "atom_ends ic a (q, c # cs) = (if amatch ic a c then [(Some c, cs)] else [])"

fun rep_ends :: "bool \<Rightarrow> nat \<Rightarrow> atom \<Rightarrow> pos \<Rightarrow> pos list" where
  "rep_ends ic 0 a p = star_ends ic a p"
| "rep_ends ic (Suc n) a p = concat (map (rep_ends ic n a) (atom_ends ic a p))"

text \<open>
  All the positions at which a match of the expression starting at a position can end,
  in the order in which Python's backtracking matcher tries them; the first is the
  match \<^verbatim>\<open>re\<close> reports.
\<close>

fun ends :: "bool \<Rightarrow> rx \<Rightarrow> pos \<Rightarrow> pos list" where
  "ends ic (Atom a) p = atom_ends ic a p"
| "ends ic (Lit s) p = lit_ends ic s p"
| "ends ic (Seq r1 r2) p = concat (map (ends ic r2) (ends ic r1 p))"
| "ends ic (Alt r1 r2) p = ends ic r1 p @ ends ic r2 p"
| "ends ic (Star a) p = star_ends ic a p"
| "ends ic (Plus a) p = rep_ends ic 1 a p"
| "ends ic (AtLeast n a) p = rep_ends ic n a p"
| "ends ic Bol p = (if fst p = None then [p] else [])"
| "ends ic Eol p = (if snd p = [] \<or> snd p = [CHR 0x0A] then [p] else [])"
| "ends ic WordB p = (if word_before p \<noteq> word_after p then [p] else [])"

text \<open>\<^verbatim>\<open>re.search(pattern, s) is not None\<close>: a match starts at some position of \<^verbatim>\<open>s\<close>.\<close>

fun search_from :: "bool \<Rightarrow> rx \<Rightarrow> pos \<Rightarrow> bool" where
  "search_from ic r (q, []) = (ends ic r (q, []) \<noteq> [])"
| "search_from ic r (q, c # cs) =
     (ends ic r (q, c # cs) \<noteq> [] \<or> search_from ic r (Some c, cs))"

definition re_search :: "bool \<Rightarrow> rx \<Rightarrow> string \<Rightarrow> bool" where
  "re_search ic r s = search_from ic r (None, s)"

text \<open>
  The leftmost non-overlapping matches, as \<^verbatim>\<open>re.findall\<close> and \<^verbatim>\<open>re.sub\<close> scan them. The
  result is the subject cut into pieces: \<open>Inl c\<close> is a character outside every match,
  \<open>Inr m\<close> is a match. A match that consumes nothing moves the scan on by one character.
\<close>

function scan :: "bool \<Rightarrow> rx \<Rightarrow> pos \<Rightarrow> (char + string) list" where
  "scan ic r (q, []) = (case ends ic r (q, []) of [] \<Rightarrow> [] | _ # _ \<Rightarrow> [Inr []])"
| "scan ic r (q, c # cs) =
     (case ends ic r (q, c # cs) of
        [] \<Rightarrow> Inl c # scan ic r (Some c, cs)
      | (q', rest) # _ \<Rightarrow>
          if length rest < length (c # cs)
          then Inr (take (length (c # cs) - length rest) (c # cs)) # scan ic r (q', rest)
          else Inr [] # Inl c # scan ic r (Some c, cs))"
  by pat_completeness auto
termination
  by (relation "measure (\<lambda>(ic, r, p). length (snd p))") auto

definition re_findall :: "rx \<Rightarrow> string \<Rightarrow> string list" where
  "re_findall r s = concat (map (\<lambda>x. case x of Inl c \<Rightarrow> [] | Inr m \<Rightarrow> [m]) (scan False r (None, s)))"

definition re_sub :: "rx \<Rightarrow> string \<Rightarrow> string \<Rightarrow> string" where
  "re_sub r repl s =
     concat (map (\<lambda>x. case x of Inl c \<Rightarrow> [c] | Inr m \<Rightarrow> repl) (scan False r (None, s)))"

fun alts :: "string list \<Rightarrow> rx" where
  "alts [] = Lit []"
| "alts [w] = Lit w"
| "alts (w # v # vs) = Alt (Lit w) (alts (v # vs))"

subsection \<open>Text normalizer\<close>

definition stop_words :: "string list" where
  "stop_words = [''the'', ''a'', ''an'', ''and'', ''or'', ''but'', ''in'', ''on'', ''at'', ''to'',
     ''for'', ''of'', ''with'', ''by'']"

definition normalize_text :: "string \<Rightarrow> string" where
  "normalize_text text =
     (if text = [] then []
      else
        let text1 = re_sub (Plus SpaceC) '' '' text;
            text2 = re_sub (Atom (NoneOf [WordC, SpaceC])) [] text1;
            text3 = re_sub (Seq WordB (Seq (alts stop_words) WordB)) [] (lower text2)
        in strip text3)"

subsection \<open>Digests and signatures\<close>

text \<open>
  \<^verbatim>\<open>hashlib.md5(s.encode()).hexdigest()\<close>: the string is encoded in UTF-8 (two bytes for a
  code point from 128 on) and digested with MD5 (RFC 1321), over 32-bit words; the digest
  is printed as 32 hexadecimal digits.
\<close>

definition utf8_encode :: "string \<Rightarrow> nat list" where
  "utf8_encode s =
     concat (map (\<lambda>c. let n = ord c in if n < 128 then [n] else [192 + n div 64, 128 + n mod 64]) s)"

definition md5_K :: "32 word list" where
  "md5_K = [
0xd76aa478, 0xe8c7b756, 0x242070db, 0xc1bdceee,
0xf57c0faf, 0x4787c62a, 0xa8304613, 0xfd469501,
0x698098d8, 0x8b44f7af, 0xffff5bb1, 0x895cd7be,
0x6b901122, 0xfd987193, 0xa679438e, 0x49b40821,
0xf61e2562, 0xc040b340, 0x265e5a51, 0xe9b6c7aa,
0xd62f105d, 0x02441453, 0xd8a1e681, 0xe7d3fbc8,
0x21e1cde6, 0xc33707d6, 0xf4d50d87, 0x455a14ed,
0xa9e3e905, 0xfcefa3f8, 0x676f02d9, 0x8d2a4c8a,
0xfffa3942, 0x8771f681, 0x6d9d6122, 0xfde5380c,
0xa4beea44, 0x4bdecfa9, 0xf6bb4b60, 0xbebfbc70,
0x289b7ec6, 0xeaa127fa, 0xd4ef3085, 0x04881d05,
0xd9d4d039, 0xe6db99e5, 0x1fa27cf8, 0xc4ac5665,
0xf4292244, 0x432aff97, 0xab9423a7, 0xfc93a039,
0x655b59c3, 0x8f0ccc92, 0xffeff47d, 0x85845dd1,
0x6fa87e4f, 0xfe2ce6e0, 0xa3014314, 0x4e0811a1,
0xf7537e82, 0xbd3af235, 0x2ad7d2bb, 0xeb86d391]"

definition md5_S :: "nat list" where
  "md5_S = [7, 12, 17, 22, 7, 12, 17, 22, 7, 12, 17, 22, 7, 12, 17, 22,
            5, 9, 14, 20, 5, 9, 14, 20, 5, 9, 14, 20, 5, 9, 14, 20,
            4, 11, 16, 23, 4, 11, 16, 23, 4, 11, 16, 23, 4, 11, 16, 23,
            6, 10, 15, 21, 6, 10, 15, 21, 6, 10, 15, 21, 6, 10, 15, 21]"

definition rotl32 :: "nat \<Rightarrow> 32 word \<Rightarrow> 32 word" where
  "rotl32 s x = push_bit s x OR drop_bit (32 - s) x"

type_synonym md5_state = "32 word \<times> 32 word \<times> 32 word \<times> 32 word"

definition md5_F :: "nat \<Rightarrow> 32 word \<Rightarrow> 32 word \<Rightarrow> 32 word \<Rightarrow> 32 word" where
  "md5_F i B C D =
     (if i < 16 then (B AND C) OR (NOT B AND D)
      else if i < 32 then (D AND B) OR (NOT D AND C)
      else if i < 48 then B XOR C XOR D
      else C XOR (B OR NOT D))"

definition md5_g :: "nat \<Rightarrow> nat" where
  "md5_g i =
     (if i < 16 then i
      else if i < 32 then (5 * i + 1) mod 16
      else if i < 48 then (3 * i + 5) mod 16
      else (7 * i) mod 16)"

fun md5_step :: "32 word list \<Rightarrow> md5_state \<Rightarrow> nat \<Rightarrow> md5_state" where
  "md5_step M (A, B, C, D) i =
     (D, B + rotl32 (md5_S ! i) (md5_F i B C D + A + md5_K ! i + M ! md5_g i), B, C)"

definition le_word32 :: "nat list \<Rightarrow> 32 word" where
  "le_word32 bs = foldr (\<lambda>b w. of_nat b + 256 * w) bs 0"

definition chunk_words :: "nat list \<Rightarrow> 32 word list" where
  "chunk_words bs = map (\<lambda>i. le_word32 (take 4 (drop (4 * i) bs))) [0, 1, 2, 3, 4, 5, 6, 7, 8, 9, 10, 11, 12, 13, 14, 15]"

fun md5_add :: "md5_state \<Rightarrow> md5_state \<Rightarrow> md5_state" where
  "md5_add (a0, b0, c0, d0) (A, B, C, D) = (a0 + A, b0 + B, c0 + C, d0 + D)"

text \<open>The 64 steps on one block, \<^verbatim>\<open>for i from 0 to 63\<close>.\<close>

function md5_loop :: "32 word list \<Rightarrow> nat \<Rightarrow> md5_state \<Rightarrow> md5_state" where
  "md5_loop M i st = (if i < 64 then md5_loop M (i + 1) (md5_step M st i) else st)"
  by pat_completeness auto
termination
  by (relation "measure (\<lambda>(M, i, st). 64 - i)") auto

declare md5_loop.simps [simp del]

definition md5_chunk :: "md5_state \<Rightarrow> nat list \<Rightarrow> md5_state" where
  "md5_chunk st bs = md5_add st (md5_loop (chunk_words bs) 0 st)"

fun le_bytes :: "nat \<Rightarrow> nat \<Rightarrow> nat list" where
  "le_bytes 0 n = []"
| "le_bytes (Suc k) n = n mod 256 # le_bytes k (n div 256)"

definition md5_pad :: "nat list \<Rightarrow> nat list" where
  "md5_pad bs =
     bs @ [128] @ replicate ((119 - length bs mod 64) mod 64) 0 @ le_bytes 8 (8 * length bs)"

function md5_chunks :: "md5_state \<Rightarrow> nat list \<Rightarrow> md5_state" where
  "md5_chunks st bs =
     (if length bs < 64 then st else md5_chunks (md5_chunk st (take 64 bs)) (drop 64 bs))"
  by pat_completeness auto
termination
  by (relation "measure (\<lambda>(st, bs). length bs)") auto

declare md5_chunks.simps [simp del]

definition hex_digit :: "nat \<Rightarrow> char" where
  "hex_digit n = ''0123456789abcdef'' ! n"

definition hex_byte :: "nat \<Rightarrow> string" where
  "hex_byte b = [hex_digit (b div 16), hex_digit (b mod 16)]"

fun md5_out :: "md5_state \<Rightarrow> string" where
  "md5_out (A, B, C, D) =
     concat (map hex_byte (concat (map (\<lambda>w. le_bytes 4 (unat w)) [A, B, C, D])))"

definition md5_hexdigest :: "nat list \<Rightarrow> string" where
  "md5_hexdigest bs =
     md5_out (md5_chunks (0x67452301, 0xefcdab89, 0x98badcfe, 0x10325476) (md5_pad bs))"

definition md5_hex :: "string \<Rightarrow> string" where
  "md5_hex s = md5_hexdigest (utf8_encode s)"

definition create_content_signature :: "string \<Rightarrow> string \<Rightarrow> string" where
  "create_content_signature title content =
     (let normalized_title = normalize_text title;
          normalized_content = normalize_text (take 1000 content);
          combined = normalized_title @ ''|'' @ normalized_content
      in md5_hex combined)"

text \<open>The pattern \<^verbatim>\<open>\b[A-Za-z]{4,}\b\<close>.\<close>

definition key_word_rx :: rx where
  "key_word_rx =
     Seq WordB (Seq (AtLeast 4 (OneOf [Rng CHR ''A'' CHR ''Z'', Rng CHR ''a'' CHR ''z''])) WordB)"

definition create_fuzzy_signature :: "string \<Rightarrow> string \<Rightarrow> string" where
  "create_fuzzy_signature title content =
     (let title_words = set (re_findall key_word_rx (lower title));
          content_words = set (re_findall key_word_rx (lower (take 500 content)));
          key_words = take 10 (sorted_list_of_set (title_words \<union> content_words));
          signature = join ''|'' (sort key_words)
      in md5_hex signature)"

subsection \<open>Sequence matching\<close>

text \<open>
  \<^verbatim>\<open>calculate_similarity\<close> is \<^verbatim>\<open>SequenceMatcher(None, text1, text2).ratio()\<close> of Python's
  \<^verbatim>\<open>difflib\<close>, with no junk predicate and the automatic junk heuristic left on: when the
  second string has 200 characters or more, a character that occurs more than
  \<open>1 + n div 100\<close> times in it is popular and is taken out of the index \<^verbatim>\<open>b2j\<close>.
\<close>

definition bpopular :: "string \<Rightarrow> char \<Rightarrow> bool" where
  "bpopular b x = (200 \<le> length b \<and> length b div 100 + 1 < length (filter (\<lambda>y. y = x) b))"

definition bjunk :: "string \<Rightarrow> char \<Rightarrow> bool" where
  "bjunk b x = False"

text \<open>\<^verbatim>\<open>b2j.get(x, [])\<close>: the indices of \<open>x\<close> in \<open>b\<close>, ascending; none for a popular \<open>x\<close>.\<close>

definition b2j_get :: "string \<Rightarrow> char \<Rightarrow> nat list" where
  "b2j_get b x = (if bpopular b x then [] else filter (\<lambda>j. b ! j = x) [0..<length b])"

type_synonym match = "nat \<times> nat \<times> nat"

text \<open>\<^verbatim>\<open>j2len.get(j - 1, 0)\<close>; the keys are Python integers, so \<open>j - 1\<close> may be \<open>-1\<close>.\<close>

definition j2lenget :: "(int \<rightharpoonup> nat) \<Rightarrow> int \<Rightarrow> nat" where
  "j2lenget j2len j = (case j2len j of None \<Rightarrow> 0 | Some k \<Rightarrow> k)"

text \<open>
  The inner loop of \<^verbatim>\<open>find_longest_match\<close> over the indices \<open>j\<close> of \<open>a[i]\<close> in \<open>b\<close>:
  an index below \<open>blo\<close> is skipped, the first index from \<open>bhi\<close> on ends the loop.
  \<open>i - k + 1\<close> is written \<open>i + 1 - k\<close>; \<open>k\<close> never exceeds \<open>i + 1\<close>.
\<close>

fun flm_inner :: "nat \<Rightarrow> nat \<Rightarrow> nat \<Rightarrow> (int \<rightharpoonup> nat) \<Rightarrow> nat list \<Rightarrow>
    (int \<rightharpoonup> nat) \<times> match \<Rightarrow> (int \<rightharpoonup> nat) \<times> match" where
  "flm_inner i blo bhi j2len [] st = st"
| "flm_inner i blo bhi j2len (j # js) (newj2len, (besti, bestj, bestsize)) =
     (if j < blo then flm_inner i blo bhi j2len js (newj2len, (besti, bestj, bestsize))
      else if bhi \<le> j then (newj2len, (besti, bestj, bestsize))
      else
        let k = j2lenget j2len (int j - 1) + 1
        in flm_inner i blo bhi j2len js
             (newj2len(int j \<mapsto> k),
              if bestsize < k then (i + 1 - k, j + 1 - k, k) else (besti, bestj, bestsize)))"

fun flm_outer :: "string \<Rightarrow> string \<Rightarrow> nat \<Rightarrow> nat \<Rightarrow> nat list \<Rightarrow>
    (int \<rightharpoonup> nat) \<times> match \<Rightarrow> (int \<rightharpoonup> nat) \<times> match" where
  "flm_outer a b blo bhi [] st = st"
| "flm_outer a b blo bhi (i # is) (j2len, best) =
     flm_outer a b blo bhi is (flm_inner i blo bhi j2len (b2j_get b (a ! i)) (Map.empty, best))"

text \<open>
  The loops that extend the best match to the left and to the right, by elements that
  pass \<open>P\<close> (first the elements that are not junk, then the junk ones).
\<close>

function extend_left :: "(char \<Rightarrow> bool) \<Rightarrow> string \<Rightarrow> string \<Rightarrow> nat \<Rightarrow> nat \<Rightarrow> match \<Rightarrow> match" where
  "extend_left P a b alo blo (besti, bestj, bestsize) =
     (if alo < besti \<and> blo < bestj \<and> P (b ! (bestj - 1)) \<and> a ! (besti - 1) = b ! (bestj - 1)
      then extend_left P a b alo blo (besti - 1, bestj - 1, bestsize + 1)
      else (besti, bestj, bestsize))"
  by pat_completeness auto
termination
  by (relation "measure (\<lambda>(P, a, b, alo, blo, besti, bestj, bestsize). besti)") auto

function extend_right :: "(char \<Rightarrow> bool) \<Rightarrow> string \<Rightarrow> string \<Rightarrow> nat \<Rightarrow> nat \<Rightarrow> match \<Rightarrow> match" where
  "extend_right P a b ahi bhi (besti, bestj, bestsize) =
     (if besti + bestsize < ahi \<and> bestj + bestsize < bhi \<and> P (b ! (bestj + bestsize)) \<and>
         a ! (besti + bestsize) = b ! (bestj + bestsize)
      then extend_right P a b ahi bhi (besti, bestj, bestsize + 1)
      else (besti, bestj, bestsize))"
  by pat_completeness auto
termination
  by (relation "measure (\<lambda>(P, a, b, ahi, bhi, besti, bestj, bestsize). ahi - (besti + bestsize))") auto

definition find_longest_match :: "string \<Rightarrow> string \<Rightarrow> nat \<Rightarrow> nat \<Rightarrow> nat \<Rightarrow> nat \<Rightarrow> match" where
  "find_longest_match a b alo ahi blo bhi =
     (let best = snd (flm_outer a b blo bhi [alo..<ahi] (Map.empty, (alo, blo, 0)));
          best = extend_left (\<lambda>x. \<not> bjunk b x) a b alo blo best;
          best = extend_right (\<lambda>x. \<not> bjunk b x) a b ahi bhi best;
          best = extend_left (bjunk b) a b alo blo best;
          best = extend_right (bjunk b) a b ahi bhi best
      in best)"

text \<open>
  A match that has been found lies inside the two ranges searched. The invariant of the
  search: the best match starts inside the ranges, at their lower ends while it is empty,
  and ends inside them once it is not; every length recorded in \<^verbatim>\<open>j2len\<close> for the previous row ends a run that fits in
  the ranges.
\<close>

definition best_ok :: "nat \<Rightarrow> nat \<Rightarrow> nat \<Rightarrow> nat \<Rightarrow> match \<Rightarrow> bool" where
  "best_ok alo ahi blo bhi m =
     (case m of (i, j, k) \<Rightarrow>
        alo \<le> i \<and> blo \<le> j \<and> (if k = 0 then i = alo \<and> j = blo else i + k \<le> ahi \<and> j + k \<le> bhi))"

definition j2len_ok :: "nat \<Rightarrow> nat \<Rightarrow> (int \<rightharpoonup> nat) \<Rightarrow> bool" where
  "j2len_ok blo n j2len = (\<forall>x k. j2len x = Some k \<longrightarrow> int k \<le> x + 1 - int blo \<and> k \<le> n)"

lemma flm_inner_ok:
  assumes "j2len_ok blo (i - alo) j2len" and "alo \<le> i" and "i < ahi"
    and "j2len_ok blo (i + 1 - alo) newj2len" and "best_ok alo ahi blo bhi best"
  shows "j2len_ok blo (i + 1 - alo) (fst (flm_inner i blo bhi j2len js (newj2len, best))) \<and>
         best_ok alo ahi blo bhi (snd (flm_inner i blo bhi j2len js (newj2len, best)))"
  using assms(4,5)
proof (induction js arbitrary: newj2len best)
  case Nil
  then show ?case by simp
next
  case (Cons j js)
  obtain besti bestj bestsize where best: "best = (besti, bestj, bestsize)"
    by (cases best) auto
  show ?case
  proof (cases "j < blo")
    case True
    with Cons best show ?thesis by simp
  next
    case lo: False
    show ?thesis
    proof (cases "bhi \<le> j")
      case True
      with lo Cons.prems best show ?thesis by simp
    next
      case hi: False
      define k where "k = j2lenget j2len (int j - 1) + 1"
      have prev: "int k0 \<le> int j - int blo \<and> k0 \<le> i - alo" if "j2len (int j - 1) = Some k0" for k0
        using assms(1) that unfolding j2len_ok_def by fastforce
      have k1: "int k \<le> int j + 1 - int blo" and k2: "k \<le> i + 1 - alo"
        using prev assms(2) lo
        by (auto simp: k_def j2lenget_def split: option.splits)
      have new: "j2len_ok blo (i + 1 - alo) (newj2len(int j \<mapsto> k))"
        using Cons.prems(1) k1 k2 by (auto simp: j2len_ok_def)
      have "0 < k" by (simp add: k_def)
      with k1 k2 assms(2,3) lo hi
      have "best_ok alo ahi blo bhi (i + 1 - k, j + 1 - k, k)"
        by (auto simp: best_ok_def)
      with Cons.prems(2)
      have bst: "best_ok alo ahi blo bhi
                   (if bestsize < k then (i + 1 - k, j + 1 - k, k) else (besti, bestj, bestsize))"
        by (simp add: best)
      have step: "flm_inner i blo bhi j2len (j # js) (newj2len, best) =
          flm_inner i blo bhi j2len js (newj2len(int j \<mapsto> k),
            if bestsize < k then (i + 1 - k, j + 1 - k, k) else (besti, bestj, bestsize))"
        using lo hi unfolding best k_def by (simp add: Let_def)
      from Cons.IH [OF new bst] show ?thesis
        by (simp only: step)
    qed
  qed
qed

lemma flm_outer_ok:
  assumes "alo \<le> m" and "j2len_ok blo (m - alo) j2len" and "best_ok alo ahi blo bhi best"
  shows "best_ok alo ahi blo bhi (snd (flm_outer a b blo bhi [m..<ahi] (j2len, best)))"
  using assms
proof (induction "ahi - m" arbitrary: m j2len best)
  case 0
  then show ?case by simp
next
  case (Suc n)
  then have lt: "m < ahi" by simp
  let ?st = "flm_inner m blo bhi j2len (b2j_get b (a ! m)) (Map.empty, best)"
  have "j2len_ok blo (m + 1 - alo) Map.empty"
    by (simp add: j2len_ok_def)
  from flm_inner_ok [OF Suc.prems(2) Suc.prems(1) lt this Suc.prems(3)]
  have st: "j2len_ok blo (Suc m - alo) (fst ?st)" "best_ok alo ahi blo bhi (snd ?st)"
    by simp_all
  have "n = ahi - Suc m" using Suc.hyps(2) by simp
  from Suc.hyps(1) [OF this _ st] Suc.prems(1)
  have "best_ok alo ahi blo bhi (snd (flm_outer a b blo bhi [Suc m..<ahi] (fst ?st, snd ?st)))"
    by simp
  then show ?case
    using lt by (simp add: upt_conv_Cons)
qed

declare extend_left.simps [simp del] extend_right.simps [simp del]

lemma extend_left_ok:
  "best_ok alo ahi blo bhi m \<Longrightarrow> best_ok alo ahi blo bhi (extend_left P a b alo blo m)"
proof (induction P a b alo blo m rule: extend_left.induct)
  case (1 P a b alo blo besti bestj bestsize)
  show ?case
  proof (cases "alo < besti \<and> blo < bestj \<and> P (b ! (bestj - 1)) \<and> a ! (besti - 1) = b ! (bestj - 1)")
    case True
    from "1.prems" True have "best_ok alo ahi blo bhi (besti - 1, bestj - 1, bestsize + 1)"
      by (auto simp: best_ok_def split: if_splits)
    from "1.IH" [OF True this] True show ?thesis
      by (simp add: extend_left.simps [of P a b alo blo besti bestj bestsize])
  next
    case False
    with "1.prems" show ?thesis
      by (auto simp: extend_left.simps [of P a b alo blo besti bestj bestsize])
  qed
qed

lemma extend_right_ok:
  "best_ok alo ahi blo bhi m \<Longrightarrow> best_ok alo ahi blo bhi (extend_right P a b ahi bhi m)"
proof (induction P a b ahi bhi m rule: extend_right.induct)
  case (1 P a b ahi bhi besti bestj bestsize)
  show ?case
  proof (cases "besti + bestsize < ahi \<and> bestj + bestsize < bhi \<and> P (b ! (bestj + bestsize)) \<and>
         a ! (besti + bestsize) = b ! (bestj + bestsize)")
    case True
    from "1.prems" True have "best_ok alo ahi blo bhi (besti, bestj, bestsize + 1)"
      by (auto simp: best_ok_def split: if_splits)
    from "1.IH" [OF True this] True show ?thesis
      by (simp add: extend_right.simps [of P a b ahi bhi besti bestj bestsize])
  next
    case False
    with "1.prems" show ?thesis
      by (auto simp: extend_right.simps [of P a b ahi bhi besti bestj bestsize])
  qed
qed

lemma find_longest_match_ok: "best_ok alo ahi blo bhi (find_longest_match a b alo ahi blo bhi)"
proof -
  have "best_ok alo ahi blo bhi (alo, blo, 0)"
    by (simp add: best_ok_def)
  moreover have "j2len_ok blo (alo - alo) Map.empty"
    by (simp add: j2len_ok_def)
  ultimately have "best_ok alo ahi blo bhi (snd (flm_outer a b blo bhi [alo..<ahi] (Map.empty, (alo, blo, 0))))"
    using flm_outer_ok [of alo alo blo Map.empty ahi bhi "(alo, blo, 0)" a b] by simp
  then show ?thesis
    unfolding find_longest_match_def Let_def
    by (intro extend_left_ok extend_right_ok)
qed

lemma find_longest_match_bounds:
  assumes "find_longest_match a b alo ahi blo bhi = (i, j, k)" and "0 < k"
  shows "alo \<le> i \<and> i + k \<le> ahi \<and> blo \<le> j \<and> j + k \<le> bhi"
  using find_longest_match_ok [of alo ahi blo bhi a b] assms by (simp add: best_ok_def)

text \<open>
  \<^verbatim>\<open>get_matching_blocks\<close> takes the longest match of the two ranges and goes on with the
  ranges to its left and to its right, through a work list. The blocks are then sorted and
  adjacent ones merged, which leaves the sum of their sizes, all that \<^verbatim>\<open>ratio\<close> reads, as
  it is; the model collects the blocks by recursion on the two sub-ranges.
\<close>

function matching_blocks :: "string \<Rightarrow> string \<Rightarrow> nat \<Rightarrow> nat \<Rightarrow> nat \<Rightarrow> nat \<Rightarrow> match list" where
  "matching_blocks a b alo ahi blo bhi =
     (case find_longest_match a b alo ahi blo bhi of
        (i, j, k) \<Rightarrow>
          if k = 0 then []
          else (i, j, k) #
               (if alo < i \<and> blo < j then matching_blocks a b alo i blo j else []) @
               (if i + k < ahi \<and> j + k < bhi then matching_blocks a b (i + k) ahi (j + k) bhi else []))"
  by pat_completeness auto
termination
  apply (relation "measure (\<lambda>(a, b, alo, ahi, blo, bhi). ahi - alo)")
    apply simp
  subgoal for a b alo ahi blo bhi i y j k
    using find_longest_match_bounds [of a b alo ahi blo bhi i j k] by auto
  subgoal for a b alo ahi blo bhi i y j k
    using find_longest_match_bounds [of a b alo ahi blo bhi i j k] by auto
  done

declare matching_blocks.simps [simp del]

text \<open>
  \<^verbatim>\<open>ratio\<close> is \<^verbatim>\<open>2.0 * matches / length\<close>, and 1.0 when both sequences are empty. The
  model keeps the exact quotient: for texts of any length that fits in memory the rounded
  quotient is on the same side of the threshold 0.8 as the exact one.
\<close>

definition calculate_ratio :: "nat \<Rightarrow> nat \<Rightarrow> real" where
  "calculate_ratio matches len = (if len \<noteq> 0 then 2 * real matches / real len else 1)"

definition ratio :: "string \<Rightarrow> string \<Rightarrow> real" where
  "ratio a b =
     calculate_ratio (sum_list (map (\<lambda>(i, j, k). k) (matching_blocks a b 0 (length a) 0 (length b))))
       (length a + length b)"

definition calculate_similarity :: "string \<Rightarrow> string \<Rightarrow> real" where
  "calculate_similarity text1 text2 = ratio text1 text2"

lemma matching_blocks_sum:
  "sum_list (map (\<lambda>(i, j, k). k) (matching_blocks a b alo ahi blo bhi)) \<le> min (ahi - alo) (bhi - blo)"
proof (induction a b alo ahi blo bhi rule: matching_blocks.induct)
  case (1 a b alo ahi blo bhi)
  obtain i j k where flm: "find_longest_match a b alo ahi blo bhi = (i, j, k)"
    by (cases "find_longest_match a b alo ahi blo bhi") auto
  show ?case
  proof (cases "k = 0")
    case True
    with flm show ?thesis by (simp add: matching_blocks.simps [of a b alo ahi blo bhi])
  next
    case False
    then have pos: "0 < k" by simp
    note bnd = find_longest_match_bounds [OF flm pos]
    define sl where "sl = sum_list (map (\<lambda>(i, j, k). k)
      (if alo < i \<and> blo < j then matching_blocks a b alo i blo j else []))"
    define sr where "sr = sum_list (map (\<lambda>(i, j, k). k)
      (if i + k < ahi \<and> j + k < bhi then matching_blocks a b (i + k) ahi (j + k) bhi else []))"
    have l: "sl \<le> i - alo \<and> sl \<le> j - blo"
      using "1.IH"(1) [of i "(j, k)" j k] flm False by (simp add: sl_def)
    have r: "sr \<le> ahi - (i + k) \<and> sr \<le> bhi - (j + k)"
      using "1.IH"(2) [of i "(j, k)" j k] flm False by (simp add: sr_def)
    have "sum_list (map (\<lambda>(i, j, k). k) (matching_blocks a b alo ahi blo bhi)) = k + sl + sr"
      using flm False by (simp add: matching_blocks.simps [of a b alo ahi blo bhi] sl_def sr_def)
    with l r bnd show ?thesis by auto
  qed
qed


section \<open>The volume reducer\<close>

subsection \<open>Configuration set by the constructor\<close>

definition similarity_threshold :: real where
  "similarity_threshold = 0.8"

definition min_content_length :: nat where
  "min_content_length = 150"

definition wire_service_patterns :: "rx list" where
  "wire_service_patterns =
     [Lit ''(Reuters)'',
      Lit ''(AP)'',
      Lit ''(AFP)'',
      Lit ''(Bloomberg)'',
      Lit ''Press Trust of India'',
      Seq (Lit ''PTI'') (Seq (Star SpaceC) (Lit ''-'')),
      Seq (Lit ''ANI'') (Seq (Star SpaceC) (Lit ''-'')),
      Seq (Lit ''IANS'') (Seq (Star SpaceC) (Lit ''-'')),
      Seq (Lit ''UNI'') (Seq (Star SpaceC) (Lit ''-'')),
      Lit ''(IANS)'',
      Lit ''(PTI)'',
      Lit ''News agencies'',
      Lit ''Wire services'',
      Seq (Lit ''Courtesy:'') (Seq (Star Dot) (Lit ''Reuters'')),
      Seq (Lit ''Source:'') (Seq (Star Dot) (Seq (Lit ''AP'') (Atom SpaceC)))]"

definition pr_patterns :: "rx list" where
  "pr_patterns =
     [Lit ''press release'',
      Lit ''FOR IMMEDIATE RELEASE'',
      Lit ''Business Wire'',
      Lit ''PR Newswire'',
      Lit ''PRWeb'',
      Seq (Lit ''Contact:'') (Seq (Star Dot) (Seq (Lit ''@'') (Seq (Star Dot) (Lit ''.'')))),
      Seq (Lit ''About '') (Seq (Atom (Rng CHR ''A'' CHR ''Z'')) (Seq (Star (OneOf [Rng CHR ''a'' CHR ''z'', Rng CHR ''A'' CHR ''Z'', SpaceC])) (Lit '':''))),
      Seq (Lit ''For more information'') (Seq (Star Dot) (Lit ''visit'')),
      Lit ''Media Contact:'',
      Seq (Lit ''Disclaimer:'') (Seq (Star Dot) (Lit ''investment'')),
      Lit ''This is a sponsored'',
      Lit ''Paid advertisement'']"

definition low_value_patterns :: "rx list" where
  "low_value_patterns =
     [Seq (Bol) (Lit ''Live updates:''),
      Seq (Bol) (Seq (Lit ''Breaking:'') (Seq (Star Dot) (Seq (Lit ''.'') (Eol)))),
      Lit ''More details to follow'',
      Lit ''This is a developing story'',
      Lit ''Story will be updated'',
      Seq (Bol) (Seq (Plus WordC) (Seq (Plus SpaceC) (Seq (Plus WordC) (Seq (Star SpaceC) (Seq (Lit ''-'') (Seq (Star SpaceC) (Eol))))))),
      Lit ''No additional details'',
      Lit ''Developing...'']"

definition filtered_patterns :: "rx list" where
  "filtered_patterns =
     [Lit ''/press-release/'',
      Lit ''/pr/'',
      Lit ''/advertisement/'',
      Lit ''/sponsored/'',
      Lit ''/jobs/'',
      Lit ''/careers/'',
      Lit ''/obituary/'',
      Lit ''/weather/'',
      Lit ''/sports-scores/'',
      Lit ''/stock-prices/'']"

text \<open>The patterns \<^verbatim>\<open>\b(By|Reporter|Correspondent):\<close> and
  \<^verbatim>\<open>\b[A-Z][a-zA-Z]*\s+(?:Inc|Corp|Ltd|LLC|Co)\b\<close>, which are counted with \<^verbatim>\<open>re.findall\<close>.\<close>

definition byline_rx :: rx where
  "byline_rx = Seq WordB (Seq (alts [''By'', ''Reporter'', ''Correspondent'']) (Lit '':''))"

definition company_rx :: rx where
  "company_rx =
     Seq (WordB) (Seq (Atom (Rng CHR ''A'' CHR ''Z'')) (Seq (Star (OneOf [Rng CHR ''a'' CHR ''z'', Rng CHR ''A'' CHR ''Z''])) (Seq (Plus SpaceC) (Seq (alts [''Inc'', ''Corp'', ''Ltd'', ''LLC'', ''Co'']) (WordB)))))"

subsection \<open>Pattern classifiers\<close>

text \<open>
  Each classifier returns at the first pattern that \<^verbatim>\<open>re.search\<close> finds in the text, with
  \<^verbatim>\<open>re.IGNORECASE\<close>; the loop over the patterns is the existential below.
\<close>

definition is_wire_service_content :: "string \<Rightarrow> string \<Rightarrow> bool" where
  "is_wire_service_content title content =
     (let full_text = title @ '' '' @ content
      in if \<exists>pattern \<in> set wire_service_patterns. re_search True pattern full_text then True
         else let byline_count = length (re_findall byline_rx full_text)
              in if 2 < byline_count then True else False)"

definition is_pr_content :: "string \<Rightarrow> string \<Rightarrow> bool" where
  "is_pr_content title content =
     (let full_text = title @ '' '' @ content
      in if \<exists>pattern \<in> set pr_patterns. re_search True pattern full_text then True
         else let company_mentions = length (re_findall company_rx content)
              in if 5 < company_mentions then True else False)"

text \<open>
  The repetition test is \<^verbatim>\<open>len(set(words)) < len(words) * 0.3\<close> in floating point. The
  product is within one part in \<open>10\<^sup>1\<^sup>6\<close> of three tenths of the word count and is that
  number exactly when it is an integer, so the comparison with an integer is the comparison
  \<open>10 * unique < 3 * total\<close>.
\<close>

definition is_low_value_content :: "string \<Rightarrow> string \<Rightarrow> bool" where
  "is_low_value_content title content =
     (if length (strip content) < min_content_length then True
      else
        let full_text = title @ '' '' @ content
        in if \<exists>pattern \<in> set low_value_patterns. re_search True pattern full_text then True
           else let words = split content
                in if 10 * card (set words) < 3 * length words then True else False)"

definition is_filtered_url :: "string \<Rightarrow> bool" where
  "is_filtered_url url = (\<exists>pattern \<in> set filtered_patterns. re_search True pattern url)"

subsection \<open>Articles and time\<close>

text \<open>
  A \<^verbatim>\<open>datetime\<close> is the reading of a clock face in microseconds since the epoch, with the
  offset of its time zone from UTC when it is aware and without one when it is naive.
  \<^verbatim>\<open>pytz.UTC.localize\<close> makes a naive value aware at offset zero. The difference of two
  aware values is the difference of their instants, and \<^verbatim>\<open>timedelta.days\<close> is its number
  of whole days, rounded down.
\<close>

record datetime =
  wall :: int
  tzinfo :: "int option"

definition utc_localize :: "datetime \<Rightarrow> datetime" where
  "utc_localize dt = dt\<lparr>tzinfo := Some 0\<rparr>"

definition instant :: "datetime \<Rightarrow> int" where
  "instant dt = wall dt - (case tzinfo dt of None \<Rightarrow> 0 | Some off \<Rightarrow> off)"

definition microseconds_per_day :: int where
  "microseconds_per_day = 86400000000"

definition timedelta_days :: "datetime \<Rightarrow> datetime \<Rightarrow> int" where
  "timedelta_days t1 t2 = (instant t1 - instant t2) div microseconds_per_day"

text \<open>\<^verbatim>\<open>datetime.now(pytz.UTC)\<close>, from the reading \<open>now\<close> of the clock in UTC.\<close>

definition datetime_now_utc :: "int \<Rightarrow> datetime" where
  "datetime_now_utc now = \<lparr>wall = now, tzinfo = Some 0\<rparr>"

text \<open>The columns of \<^verbatim>\<open>database.models.Article\<close> that the reducer reads; \<^verbatim>\<open>content\<close> and
  \<^verbatim>\<open>created_at\<close> may be null.\<close>

record article =
  article_id :: int
  article_title :: string
  article_content :: "string option"
  article_created_at :: "datetime option"

text \<open>\<^verbatim>\<open>article.content or ""\<close>.\<close>

definition content_or_empty :: "article \<Rightarrow> string" where
  "content_or_empty a = (case article_content a of None \<Rightarrow> [] | Some c \<Rightarrow> c)"

subsection \<open>Duplicate detection\<close>

text \<open>
  The state of a \<^verbatim>\<open>VolumeReducer\<close> that changes after construction: the cache of recent
  content hashes and the time of its last cleanup. A method takes the reducer and returns
  it as the call leaves it. The clock is an argument: \<open>now\<close> is the reading of the clock
  in UTC during the call.
\<close>

record volume_reducer =
  recent_hashes :: "string set"
  last_cache_cleanup :: int

text \<open>The test that skips an article of the window: it has a creation time, and the whole
  days from it to now are more than 7.\<close>

definition too_old :: "int \<Rightarrow> article \<Rightarrow> bool" where
  "too_old now a =
     (case article_created_at a of
        None \<Rightarrow> False
      | Some created \<Rightarrow>
          let article_time = (if tzinfo created = None then utc_localize created else created);
              current_time = datetime_now_utc now
          in 7 < timedelta_days current_time article_time)"

text \<open>The loop of \<^verbatim>\<open>is_duplicate\<close> over the window; \<open>Some\<close> is a \<^verbatim>\<open>return\<close> from inside the
  loop, with the kind of duplicate, and \<open>None\<close> is the end of the loop.\<close>

fun duplicate_scan :: "int \<Rightarrow> string \<Rightarrow> string \<Rightarrow> article list \<Rightarrow> string option" where
  "duplicate_scan now fuzzy_hash current_normalized [] = None"
| "duplicate_scan now fuzzy_hash current_normalized (a # existing_articles) =
     (if too_old now a then duplicate_scan now fuzzy_hash current_normalized existing_articles
      else
        let existing_fuzzy = create_fuzzy_signature (article_title a) (content_or_empty a)
        in if fuzzy_hash = existing_fuzzy then Some ''fuzzy_duplicate''
           else
             let existing_normalized =
                   normalize_text (article_title a @ '' '' @ take 500 (content_or_empty a));
                 similarity = calculate_similarity current_normalized existing_normalized
             in if similarity_threshold \<le> similarity then Some ''similar_content''
                else duplicate_scan now fuzzy_hash current_normalized existing_articles)"

definition is_duplicate ::
    "volume_reducer \<Rightarrow> int \<Rightarrow> string \<Rightarrow> string \<Rightarrow> article list \<Rightarrow>
     volume_reducer \<times> bool \<times> string option" where
  "is_duplicate self now title content existing_articles =
     (let content_hash = create_content_signature title content
      in if content_hash \<in> recent_hashes self then (self, True, Some ''exact_duplicate'')
         else
           let fuzzy_hash = create_fuzzy_signature title content;
               current_normalized = normalize_text (title @ '' '' @ take 500 content)
           in case duplicate_scan now fuzzy_hash current_normalized existing_articles of
                Some dup_type \<Rightarrow> (self, True, Some dup_type)
              | None \<Rightarrow>
                  (self\<lparr>recent_hashes := insert content_hash (recent_hashes self)\<rparr>, False, None))"

subsection \<open>The decision\<close>

text \<open>\<^verbatim>\<open>f"duplicate_{dup_type}"\<close>.\<close>

definition duplicate_reason :: "string option \<Rightarrow> string" where
  "duplicate_reason dup_type =
     ''duplicate_'' @ (case dup_type of None \<Rightarrow> ''None'' | Some t \<Rightarrow> t)"

text \<open>
  \<^verbatim>\<open>existing_articles\<close> defaults to \<^verbatim>\<open>None\<close>; the duplicate check runs when it is a list
  that is not empty.
\<close>

definition should_process_article ::
    "volume_reducer \<Rightarrow> int \<Rightarrow> string \<Rightarrow> string \<Rightarrow> string \<Rightarrow> article list option \<Rightarrow>
     volume_reducer \<times> bool \<times> string list" where
  "should_process_article self now title content url existing_articles =
     (let reasons1 = (if is_low_value_content title content then [''low_value_content''] else []);
          reasons2 = reasons1 @ (if is_wire_service_content title content then [''wire_service''] else []);
          reasons3 = reasons2 @ (if is_pr_content title content then [''pr_content''] else []);
          (self', reasons4) =
            (case existing_articles of
               Some (a # as) \<Rightarrow>
                 (case is_duplicate self now title content (a # as) of
                    (self', is_dup, dup_type) \<Rightarrow>
                      (self', if is_dup then reasons3 @ [duplicate_reason dup_type] else reasons3))
             | _ \<Rightarrow> (self, reasons3));
          rejection_reasons = reasons4 @ (if is_filtered_url url then [''filtered_url''] else []);
          should_process = (length rejection_reasons = 0)
      in (self', should_process, rejection_reasons))"

subsection \<open>Cache cleanup and the batch\<close>

text \<open>\<^verbatim>\<open>cleanup_cache\<close> reads the local clock; the cache lives 24 hours.\<close>

definition hash_cache_expiry :: int where
  "hash_cache_expiry = 24 * 3600000000"

definition cleanup_cache :: "volume_reducer \<Rightarrow> int \<Rightarrow> volume_reducer" where
  "cleanup_cache self current_time =
     (if hash_cache_expiry < current_time - last_cache_cleanup self
      then self\<lparr>recent_hashes := {}, last_cache_cleanup := current_time\<rparr>
      else self)"

text \<open>
  An article of a batch is a dictionary; \<^verbatim>\<open>d.get(key, '')\<close> reads it. The statistics are a
  dictionary of counters: \<^verbatim>\<open>stats[key] = stats.get(key, 0) + 1\<close>, which is also what
  \<^verbatim>\<open>stats[key] += 1\<close> does to a key that is there.
\<close>

type_synonym article_data = "(string \<times> string) list"

definition dict_get :: "article_data \<Rightarrow> string \<Rightarrow> string" where
  "dict_get d key = (case map_of d key of None \<Rightarrow> [] | Some v \<Rightarrow> v)"

definition bump :: "(string \<rightharpoonup> nat) \<Rightarrow> string \<Rightarrow> (string \<rightharpoonup> nat)" where
  "bump stats key = stats(key \<mapsto> (case stats key of None \<Rightarrow> 0 | Some n \<Rightarrow> n) + 1)"

definition initial_stats :: "nat \<Rightarrow> (string \<rightharpoonup> nat)" where
  "initial_stats n =
     [''total_input'' \<mapsto> n, ''total_filtered'' \<mapsto> 0, ''low_value_content'' \<mapsto> 0,
      ''wire_service'' \<mapsto> 0, ''pr_content'' \<mapsto> 0, ''duplicate_exact_duplicate'' \<mapsto> 0,
      ''duplicate_fuzzy_duplicate'' \<mapsto> 0, ''duplicate_similar_content'' \<mapsto> 0,
      ''filtered_url'' \<mapsto> 0, ''processed'' \<mapsto> 0]"

text \<open>The loop of \<^verbatim>\<open>filter_articles_batch\<close> over the articles of the batch, in their order.\<close>

fun batch_loop ::
    "int \<Rightarrow> article list \<Rightarrow> article_data list \<Rightarrow>
     volume_reducer \<times> article_data list \<times> (string \<rightharpoonup> nat) \<Rightarrow>
     volume_reducer \<times> article_data list \<times> (string \<rightharpoonup> nat)" where
  "batch_loop now recent_articles [] st = st"
| "batch_loop now recent_articles (article_data # articles) (reducer, filtered_articles, rejection_stats) =
     (let title = dict_get article_data ''title'';
          content = dict_get article_data ''content'';
          url = dict_get article_data ''url''
      in case should_process_article reducer now title content url (Some recent_articles) of
           (reducer', should_process, reasons) \<Rightarrow>
             if should_process
             then batch_loop now recent_articles articles
                    (reducer', filtered_articles @ [article_data], bump rejection_stats ''processed'')
             else batch_loop now recent_articles articles
                    (reducer', filtered_articles,
                     foldl bump (bump rejection_stats ''total_filtered'') reasons))"

text \<open>
  \<^verbatim>\<open>filter_articles_batch\<close> works on the global reducer. \<open>recent_articles\<close> is what the
  query for the articles of the last \<^verbatim>\<open>max_lookback_days\<close> days returns; \<open>local_now\<close> and
  \<open>now\<close> are the readings of the local clock and of the clock in UTC during the call.
\<close>

definition filter_articles_batch ::
    "volume_reducer \<Rightarrow> int \<Rightarrow> int \<Rightarrow> article_data list \<Rightarrow> article list \<Rightarrow>
     volume_reducer \<times> article_data list \<times> (string \<rightharpoonup> nat)" where
  "filter_articles_batch reducer local_now now articles recent_articles =
     batch_loop now recent_articles articles
       (cleanup_cache reducer local_now, [], initial_stats (length articles))"

subsection \<open>Sample inputs\<close>

definition sample_title :: string where
  "sample_title = ''City council approves new park''"

definition sample_content :: string where
  "sample_content = ''The city council voted on Tuesday to approve funding for a new public park near the river, with construction expected to begin next spring after a design review is completed.''"

definition sample_url :: string where
  "sample_url = ''https://example.com/news/park''"

definition sample_item :: article_data where
  "sample_item = [(''title'', sample_title), (''content'', sample_content), (''url'', sample_url)]"

text \<open>A reducer as the constructor leaves it, and a clock reading twenty days after the
  epoch.\<close>

definition fresh_reducer :: volume_reducer where
  "fresh_reducer = \<lparr>recent_hashes = {}, last_cache_cleanup = 0\<rparr>"

definition sample_now :: int where
  "sample_now = 20 * microseconds_per_day"

text \<open>An article of the window created ten days before the sample clock reading.\<close>

definition old_article :: article where
  "old_article =
     \<lparr>article_id = 1, article_title = ''Harbour bridge reopens'', article_content = None,
      article_created_at = Some \<lparr>wall = 10 * microseconds_per_day, tzinfo = None\<rparr>\<rparr>"

text \<open>An article of the window created seven and a half days before the sample clock
  reading, with the title and the content of the sample item.\<close>

definition week_old_article :: article where
  "week_old_article =
     \<lparr>article_id = 2, article_title = sample_title, article_content = Some sample_content,
      article_created_at =
        Some \<lparr>wall = 12 * microseconds_per_day + microseconds_per_day div 2, tzinfo = None\<rparr>\<rparr>"

text \<open>The sample item as a second feed carries it, under another URL.\<close>

definition mirror_url :: string where
  "mirror_url = ''https://example.org/local/council-park''"

definition mirror_item :: article_data where
  "mirror_item = [(''title'', sample_title), (''content'', sample_content), (''url'', mirror_url)]"

text \<open>Articles of the window created one day before the sample clock reading: one whose
  title differs from \<^verbatim>\<open>earthquake\<close> by a letter, one whose title is that word, one with
  the title and the content of the sample item, and one on another subject.\<close>

definition plural_article :: article where
  "plural_article =
     \<lparr>article_id = 3, article_title = ''earthquakes'', article_content = None,
      article_created_at = Some \<lparr>wall = 19 * microseconds_per_day, tzinfo = None\<rparr>\<rparr>"

definition twin_article :: article where
  "twin_article =
     \<lparr>article_id = 4, article_title = ''Earthquake'', article_content = None,
      article_created_at = Some \<lparr>wall = 19 * microseconds_per_day, tzinfo = None\<rparr>\<rparr>"

definition day_old_article :: article where
  "day_old_article =
     \<lparr>article_id = 6, article_title = sample_title, article_content = Some sample_content,
      article_created_at = Some \<lparr>wall = 19 * microseconds_per_day, tzinfo = None\<rparr>\<rparr>"

definition bridge_article :: article where
  "bridge_article =
     \<lparr>article_id = 7, article_title = ''Harbour bridge reopens'', article_content = None,
      article_created_at = Some \<lparr>wall = 19 * microseconds_per_day, tzinfo = None\<rparr>\<rparr>"


subsection \<open>The first matching article\<close>

text \<open>
  The two tests of the loop of \<^verbatim>\<open>is_duplicate\<close> on one article of the window, and the
  first article of the window that is not skipped for its age and passes one of them.
\<close>

definition fuzzy_match :: "string \<Rightarrow> string \<Rightarrow> article \<Rightarrow> bool" where
  "fuzzy_match title content a =
     (create_fuzzy_signature title content =
      create_fuzzy_signature (article_title a) (content_or_empty a))"

definition similar_match :: "string \<Rightarrow> string \<Rightarrow> article \<Rightarrow> bool" where
  "similar_match title content a =
     (similarity_threshold \<le>
      calculate_similarity (normalize_text (title @ '' '' @ take 500 content))
        (normalize_text (article_title a @ '' '' @ take 500 (content_or_empty a))))"

text \<open>
  The lookback as the specification words it: the age of an article of the window is the
  time from its creation to now, both in UTC, and the article is within the lookback when
  that age is at most 7 days. An article without a creation time has no age and is never
  skipped (the guard \<^verbatim>\<open>if article.created_at:\<close>).
\<close>

definition article_age :: "int \<Rightarrow> article \<Rightarrow> int option" where
  "article_age now a =
     (case article_created_at a of
        None \<Rightarrow> None
      | Some created \<Rightarrow>
          Some (instant (datetime_now_utc now) -
                instant (if tzinfo created = None then utc_localize created else created)))"

definition lookback :: int where
  "lookback = 7 * microseconds_per_day"

definition in_lookback :: "int \<Rightarrow> article \<Rightarrow> bool" where
  "in_lookback now a = (case article_age now a of None \<Rightarrow> True | Some age \<Rightarrow> age \<le> lookback)"

text \<open>An age that is over the lookback and still under 8 whole days.\<close>

definition past_lookback_within_days :: "int \<Rightarrow> article \<Rightarrow> bool" where
  "past_lookback_within_days now a =
     (case article_age now a of
        None \<Rightarrow> False
      | Some age \<Rightarrow> lookback < age \<and> age < 8 * microseconds_per_day)"

definition first_match :: "int \<Rightarrow> string \<Rightarrow> string \<Rightarrow> article list \<Rightarrow> article option" where
  "first_match now title content existing_articles =
     find (\<lambda>a. in_lookback now a \<and> (fuzzy_match title content a \<or> similar_match title content a))
       existing_articles"

section \<open>Evaluation\<close>

text \<open>
  The character functions on the printable ASCII characters, the tabulator and the line
  feed, as tables: with them the simplifier runs the matcher on a concrete text without
  arithmetic on character codes.
\<close>

lemma lower_char_table:
  "lower_char (CHR '' '') = CHR '' ''" "lower_char (CHR ''!'') = CHR ''!''"
  "lower_char (CHR 0x22) = CHR 0x22" "lower_char (CHR ''#'') = CHR ''#''"
  "lower_char (CHR ''$'') = CHR ''$''" "lower_char (CHR ''%'') = CHR ''%''"
  "lower_char (CHR ''&'') = CHR ''&''" "lower_char (CHR 0x27) = CHR 0x27"
  "lower_char (CHR ''('') = CHR ''(''" "lower_char (CHR '')'') = CHR '')''"
  "lower_char (CHR ''*'') = CHR ''*''" "lower_char (CHR ''+'') = CHR ''+''"
  "lower_char (CHR '','') = CHR '',''" "lower_char (CHR ''-'') = CHR ''-''"
  "lower_char (CHR ''.'') = CHR ''.''" "lower_char (CHR ''/'') = CHR ''/''"
  "lower_char (CHR ''0'') = CHR ''0''" "lower_char (CHR ''1'') = CHR ''1''"
  "lower_char (CHR ''2'') = CHR ''2''" "lower_char (CHR ''3'') = CHR ''3''"
  "lower_char (CHR ''4'') = CHR ''4''" "lower_char (CHR ''5'') = CHR ''5''"
  "lower_char (CHR ''6'') = CHR ''6''" "lower_char (CHR ''7'') = CHR ''7''"
  "lower_char (CHR ''8'') = CHR ''8''" "lower_char (CHR ''9'') = CHR ''9''"
  "lower_char (CHR '':'') = CHR '':''" "lower_char (CHR '';'') = CHR '';''"
  "lower_char (CHR ''<'') = CHR ''<''" "lower_char (CHR ''='') = CHR ''=''"
  "lower_char (CHR ''>'') = CHR ''>''" "lower_char (CHR ''?'') = CHR ''?''"
  "lower_char (CHR ''@'') = CHR ''@''" "lower_char (CHR ''A'') = CHR ''a''"
  "lower_char (CHR ''B'') = CHR ''b''" "lower_char (CHR ''C'') = CHR ''c''"
  "lower_char (CHR ''D'') = CHR ''d''" "lower_char (CHR ''E'') = CHR ''e''"
  "lower_char (CHR ''F'') = CHR ''f''" "lower_char (CHR ''G'') = CHR ''g''"
  "lower_char (CHR ''H'') = CHR ''h''" "lower_char (CHR ''I'') = CHR ''i''"
  "lower_char (CHR ''J'') = CHR ''j''" "lower_char (CHR ''K'') = CHR ''k''"
  "lower_char (CHR ''L'') = CHR ''l''" "lower_char (CHR ''M'') = CHR ''m''"
  "lower_char (CHR ''N'') = CHR ''n''" "lower_char (CHR ''O'') = CHR ''o''"
  "lower_char (CHR ''P'') = CHR ''p''" "lower_char (CHR ''Q'') = CHR ''q''"
  "lower_char (CHR ''R'') = CHR ''r''" "lower_char (CHR ''S'') = CHR ''s''"
  "lower_char (CHR ''T'') = CHR ''t''" "lower_char (CHR ''U'') = CHR ''u''"
  "lower_char (CHR ''V'') = CHR ''v''" "lower_char (CHR ''W'') = CHR ''w''"
  "lower_char (CHR ''X'') = CHR ''x''" "lower_char (CHR ''Y'') = CHR ''y''"
  "lower_char (CHR ''Z'') = CHR ''z''" "lower_char (CHR ''['') = CHR ''[''"
  "lower_char (CHR 0x5C) = CHR 0x5C" "lower_char (CHR '']'') = CHR '']''"
  "lower_char (CHR ''^'') = CHR ''^''" "lower_char (CHR ''_'') = CHR ''_''"
  "lower_char (CHR 0x60) = CHR 0x60" "lower_char (CHR ''a'') = CHR ''a''"
  "lower_char (CHR ''b'') = CHR ''b''" "lower_char (CHR ''c'') = CHR ''c''"
  "lower_char (CHR ''d'') = CHR ''d''" "lower_char (CHR ''e'') = CHR ''e''"
  "lower_char (CHR ''f'') = CHR ''f''" "lower_char (CHR ''g'') = CHR ''g''"
  "lower_char (CHR ''h'') = CHR ''h''" "lower_char (CHR ''i'') = CHR ''i''"
  "lower_char (CHR ''j'') = CHR ''j''" "lower_char (CHR ''k'') = CHR ''k''"
  "lower_char (CHR ''l'') = CHR ''l''" "lower_char (CHR ''m'') = CHR ''m''"
  "lower_char (CHR ''n'') = CHR ''n''" "lower_char (CHR ''o'') = CHR ''o''"
  "lower_char (CHR ''p'') = CHR ''p''" "lower_char (CHR ''q'') = CHR ''q''"
  "lower_char (CHR ''r'') = CHR ''r''" "lower_char (CHR ''s'') = CHR ''s''"
  "lower_char (CHR ''t'') = CHR ''t''" "lower_char (CHR ''u'') = CHR ''u''"
  "lower_char (CHR ''v'') = CHR ''v''" "lower_char (CHR ''w'') = CHR ''w''"
  "lower_char (CHR ''x'') = CHR ''x''" "lower_char (CHR ''y'') = CHR ''y''"
  "lower_char (CHR ''z'') = CHR ''z''" "lower_char (CHR ''{'') = CHR ''{''"
  "lower_char (CHR ''|'') = CHR ''|''" "lower_char (CHR ''}'') = CHR ''}''"
  "lower_char (CHR ''~'') = CHR ''~''" "lower_char (CHR 0x09) = CHR 0x09"
  "lower_char (CHR 0x0A) = CHR 0x0A"
  by code_simp+

lemma is_word_table:
  "is_word (CHR '' '') = False" "is_word (CHR ''!'') = False" "is_word (CHR 0x22) = False"
  "is_word (CHR ''#'') = False" "is_word (CHR ''$'') = False" "is_word (CHR ''%'') = False"
  "is_word (CHR ''&'') = False" "is_word (CHR 0x27) = False" "is_word (CHR ''('') = False"
  "is_word (CHR '')'') = False" "is_word (CHR ''*'') = False" "is_word (CHR ''+'') = False"
  "is_word (CHR '','') = False" "is_word (CHR ''-'') = False" "is_word (CHR ''.'') = False"
  "is_word (CHR ''/'') = False" "is_word (CHR ''0'') = True" "is_word (CHR ''1'') = True"
  "is_word (CHR ''2'') = True" "is_word (CHR ''3'') = True" "is_word (CHR ''4'') = True"
  "is_word (CHR ''5'') = True" "is_word (CHR ''6'') = True" "is_word (CHR ''7'') = True"
  "is_word (CHR ''8'') = True" "is_word (CHR ''9'') = True" "is_word (CHR '':'') = False"
  "is_word (CHR '';'') = False" "is_word (CHR ''<'') = False" "is_word (CHR ''='') = False"
  "is_word (CHR ''>'') = False" "is_word (CHR ''?'') = False" "is_word (CHR ''@'') = False"
  "is_word (CHR ''A'') = True" "is_word (CHR ''B'') = True" "is_word (CHR ''C'') = True"
  "is_word (CHR ''D'') = True" "is_word (CHR ''E'') = True" "is_word (CHR ''F'') = True"
  "is_word (CHR ''G'') = True" "is_word (CHR ''H'') = True" "is_word (CHR ''I'') = True"
  "is_word (CHR ''J'') = True" "is_word (CHR ''K'') = True" "is_word (CHR ''L'') = True"
  "is_word (CHR ''M'') = True" "is_word (CHR ''N'') = True" "is_word (CHR ''O'') = True"
  "is_word (CHR ''P'') = True" "is_word (CHR ''Q'') = True" "is_word (CHR ''R'') = True"
  "is_word (CHR ''S'') = True" "is_word (CHR ''T'') = True" "is_word (CHR ''U'') = True"
  "is_word (CHR ''V'') = True" "is_word (CHR ''W'') = True" "is_word (CHR ''X'') = True"
  "is_word (CHR ''Y'') = True" "is_word (CHR ''Z'') = True" "is_word (CHR ''['') = False"
  "is_word (CHR 0x5C) = False" "is_word (CHR '']'') = False" "is_word (CHR ''^'') = False"
  "is_word (CHR ''_'') = True" "is_word (CHR 0x60) = False" "is_word (CHR ''a'') = True"
  "is_word (CHR ''b'') = True" "is_word (CHR ''c'') = True" "is_word (CHR ''d'') = True"
  "is_word (CHR ''e'') = True" "is_word (CHR ''f'') = True" "is_word (CHR ''g'') = True"
  "is_word (CHR ''h'') = True" "is_word (CHR ''i'') = True" "is_word (CHR ''j'') = True"
  "is_word (CHR ''k'') = True" "is_word (CHR ''l'') = True" "is_word (CHR ''m'') = True"
  "is_word (CHR ''n'') = True" "is_word (CHR ''o'') = True" "is_word (CHR ''p'') = True"
  "is_word (CHR ''q'') = True" "is_word (CHR ''r'') = True" "is_word (CHR ''s'') = True"
  "is_word (CHR ''t'') = True" "is_word (CHR ''u'') = True" "is_word (CHR ''v'') = True"
  "is_word (CHR ''w'') = True" "is_word (CHR ''x'') = True" "is_word (CHR ''y'') = True"
  "is_word (CHR ''z'') = True" "is_word (CHR ''{'') = False" "is_word (CHR ''|'') = False"
  "is_word (CHR ''}'') = False" "is_word (CHR ''~'') = False" "is_word (CHR 0x09) = False"
  "is_word (CHR 0x0A) = False"
  by (simp_all add: is_word_def ord_def)

lemma is_space_table:
  "is_space (CHR '' '') = True" "is_space (CHR ''!'') = False" "is_space (CHR 0x22) = False"
  "is_space (CHR ''#'') = False" "is_space (CHR ''$'') = False" "is_space (CHR ''%'') = False"
  "is_space (CHR ''&'') = False" "is_space (CHR 0x27) = False" "is_space (CHR ''('') = False"
  "is_space (CHR '')'') = False" "is_space (CHR ''*'') = False" "is_space (CHR ''+'') = False"
  "is_space (CHR '','') = False" "is_space (CHR ''-'') = False" "is_space (CHR ''.'') = False"
  "is_space (CHR ''/'') = False" "is_space (CHR ''0'') = False" "is_space (CHR ''1'') = False"
  "is_space (CHR ''2'') = False" "is_space (CHR ''3'') = False" "is_space (CHR ''4'') = False"
  "is_space (CHR ''5'') = False" "is_space (CHR ''6'') = False" "is_space (CHR ''7'') = False"
  "is_space (CHR ''8'') = False" "is_space (CHR ''9'') = False" "is_space (CHR '':'') = False"
  "is_space (CHR '';'') = False" "is_space (CHR ''<'') = False" "is_space (CHR ''='') = False"
  "is_space (CHR ''>'') = False" "is_space (CHR ''?'') = False" "is_space (CHR ''@'') = False"
  "is_space (CHR ''A'') = False" "is_space (CHR ''B'') = False" "is_space (CHR ''C'') = False"
  "is_space (CHR ''D'') = False" "is_space (CHR ''E'') = False" "is_space (CHR ''F'') = False"
  "is_space (CHR ''G'') = False" "is_space (CHR ''H'') = False" "is_space (CHR ''I'') = False"
  "is_space (CHR ''J'') = False" "is_space (CHR ''K'') = False" "is_space (CHR ''L'') = False"
  "is_space (CHR ''M'') = False" "is_space (CHR ''N'') = False" "is_space (CHR ''O'') = False"
  "is_space (CHR ''P'') = False" "is_space (CHR ''Q'') = False" "is_space (CHR ''R'') = False"
  "is_space (CHR ''S'') = False" "is_space (CHR ''T'') = False" "is_space (CHR ''U'') = False"
  "is_space (CHR ''V'') = False" "is_space (CHR ''W'') = False" "is_space (CHR ''X'') = False"
  "is_space (CHR ''Y'') = False" "is_space (CHR ''Z'') = False" "is_space (CHR ''['') = False"
  "is_space (CHR 0x5C) = False" "is_space (CHR '']'') = False" "is_space (CHR ''^'') = False"
  "is_space (CHR ''_'') = False" "is_space (CHR 0x60) = False" "is_space (CHR ''a'') = False"
  "is_space (CHR ''b'') = False" "is_space (CHR ''c'') = False" "is_space (CHR ''d'') = False"
  "is_space (CHR ''e'') = False" "is_space (CHR ''f'') = False" "is_space (CHR ''g'') = False"
  "is_space (CHR ''h'') = False" "is_space (CHR ''i'') = False" "is_space (CHR ''j'') = False"
  "is_space (CHR ''k'') = False" "is_space (CHR ''l'') = False" "is_space (CHR ''m'') = False"
  "is_space (CHR ''n'') = False" "is_space (CHR ''o'') = False" "is_space (CHR ''p'') = False"
  "is_space (CHR ''q'') = False" "is_space (CHR ''r'') = False" "is_space (CHR ''s'') = False"
  "is_space (CHR ''t'') = False" "is_space (CHR ''u'') = False" "is_space (CHR ''v'') = False"
  "is_space (CHR ''w'') = False" "is_space (CHR ''x'') = False" "is_space (CHR ''y'') = False"
  "is_space (CHR ''z'') = False" "is_space (CHR ''{'') = False" "is_space (CHR ''|'') = False"
  "is_space (CHR ''}'') = False" "is_space (CHR ''~'') = False" "is_space (CHR 0x09) = True"
  "is_space (CHR 0x0A) = True"
  by (simp_all add: is_space_def ord_def)

lemmas char_eval = lower_char_table is_word_table is_space_table ord_def upper_char_ascii_def
  in_rng_def is_lower_ascii_def word_before_def word_after_def

lemmas text_eval = char_eval re_search_def re_findall_def re_sub_def lower_def strip_def
  split_def stop_words_def normalize_text_def Let_def

lemma rep_ends_numeral:
  "rep_ends ic (numeral k) a p = concat (map (rep_ends ic (pred_numeral k) a) (atom_ends ic a p))"
  by (simp add: numeral_eq_Suc)

lemma sample_not_low_value: "\<not> is_low_value_content sample_title sample_content"
  unfolding is_low_value_content_def low_value_patterns_def sample_title_def sample_content_def
    min_content_length_def Let_def List.card_set
  apply (simp only: list.set bex_simps append.simps)
  apply (simp add: text_eval)
  done

lemma sample_not_wire_service: "\<not> is_wire_service_content sample_title sample_content"
  unfolding is_wire_service_content_def wire_service_patterns_def byline_rx_def
    sample_title_def sample_content_def
  apply (simp only: list.set bex_simps append.simps)
  apply (simp add: text_eval)
  done

lemma sample_not_pr: "\<not> is_pr_content sample_title sample_content"
  unfolding is_pr_content_def pr_patterns_def company_rx_def sample_title_def sample_content_def
  apply (simp only: list.set bex_simps append.simps)
  apply (simp add: text_eval)
  done

lemma sample_url_not_filtered: "\<not> is_filtered_url sample_url"
  unfolding is_filtered_url_def filtered_patterns_def sample_url_def
  apply (simp only: list.set bex_simps append.simps)
  apply (simp add: text_eval)
  done

lemma old_article_too_old: "too_old sample_now old_article"
  by (simp add: too_old_def old_article_def sample_now_def timedelta_days_def instant_def
      utc_localize_def datetime_now_utc_def microseconds_per_day_def)

lemma press_release_url_filtered: "is_filtered_url ''https://example.com/press-release/123''"
  unfolding is_filtered_url_def filtered_patterns_def
  apply (simp only: list.set bex_simps append.simps)
  apply (simp add: text_eval)
  done

lemma sample_item_fields:
  "dict_get sample_item ''title'' = sample_title"
  "dict_get sample_item ''content'' = sample_content"
  "dict_get sample_item ''url'' = sample_url"
  by (simp_all add: dict_get_def sample_item_def)

subsection \<open>Digests of sample texts\<close>

lemma replicate_pos_eval: "0 < k \<Longrightarrow> replicate k x = x # replicate (k - 1) x"
  by (cases k) simp_all

lemma le_bytes_pos_eval: "0 < k \<Longrightarrow> le_bytes k n = n mod 256 # le_bytes (k - 1) (n div 256)"
  by (cases k) simp_all

lemmas replicate_numeral_eval = replicate_pos_eval [of "numeral k" for k, simplified]

lemmas le_bytes_numeral_eval = le_bytes_pos_eval [of "numeral k" for k, simplified]

lemma le_bytes_1_eval: "le_bytes 1 n = [n mod 256]"
  by simp

lemma md5_chunks_one: "length bs = 64 \<Longrightarrow> md5_chunks st bs = md5_chunk st bs"
  by (simp add: md5_chunks.simps [of st bs] md5_chunks.simps [of _ "[]"])

lemmas md5_eval = md5_hex_def utf8_encode_def ord_def md5_hexdigest_def md5_pad_def md5_chunks_one
  md5_chunk_def md5_loop.simps chunk_words_def le_word32_def md5_S_def md5_K_def md5_F_def
  md5_g_def rotl32_def hex_byte_def hex_digit_def replicate_numeral_eval le_bytes_numeral_eval
  le_bytes_1_eval



lemma md5_hex_earthquake: "md5_hex ''earthquake'' = ''e9ad9c2394f7dc7b6a69fb43e52a7382''"
  by (simp add: md5_eval)

lemma md5_hex_earthquakes: "md5_hex ''earthquakes'' = ''a55a7b55a4fb227fa66b5730a591d18b''"
  by (simp add: md5_eval)

subsection \<open>Signatures and similarity of sample texts\<close>

lemma create_fuzzy_signature_eval:
  "create_fuzzy_signature title content =
     md5_hex (join ''|'' (sort (take 10 (sort (remdups
       (re_findall key_word_rx (lower title) @
        re_findall key_word_rx (lower (take 500 content))))))))"
  by (simp add: create_fuzzy_signature_def Let_def sorted_list_of_set_sort_remdups
      flip: set_append)

lemma fuzzy_signature_earthquake:
  "create_fuzzy_signature ''earthquake'' [] = ''e9ad9c2394f7dc7b6a69fb43e52a7382''"
  "create_fuzzy_signature ''Earthquake'' [] = ''e9ad9c2394f7dc7b6a69fb43e52a7382''"
  "create_fuzzy_signature ''earthquakes'' [] = ''a55a7b55a4fb227fa66b5730a591d18b''"
  unfolding create_fuzzy_signature_eval
  by (simp_all add: key_word_rx_def text_eval rep_ends_numeral
      md5_hex_earthquake md5_hex_earthquakes)


lemma normalize_text_samples:
  "normalize_text ''earthquake '' = ''earthquake''"
  "normalize_text ''earthquakes '' = ''earthquakes''"
  "normalize_text ''Earthquake '' = ''earthquake''"
  "normalize_text ''with '' = []"
  "normalize_text ''the '' = []"
  by (simp_all add: text_eval)

lemma matching_blocks_earthquake:
  "sum_list (map (\<lambda>(i, j, k). k)
     (matching_blocks ''earthquake'' ''earthquakes'' 0 (length ''earthquake'') 0
        (length ''earthquakes''))) = 10"
  by code_simp

lemma similarity_earthquake: "calculate_similarity ''earthquake'' ''earthquakes'' = 20 / 21"
  unfolding calculate_similarity_def ratio_def calculate_ratio_def matching_blocks_earthquake
  by simp


subsection \<open>Ages of the sample articles\<close>

lemma too_old_iff_age:
  "too_old now a \<longleftrightarrow>
     (case article_age now a of None \<Rightarrow> False | Some age \<Rightarrow> 8 * microseconds_per_day \<le> age)"
  by (auto simp: too_old_def article_age_def timedelta_days_def microseconds_per_day_def Let_def
      split: option.split)

lemma in_lookback_iff_not_too_old:
  assumes "\<not> past_lookback_within_days now a"
  shows "in_lookback now a \<longleftrightarrow> \<not> too_old now a"
  using assms
  by (auto simp: too_old_iff_age in_lookback_def past_lookback_within_days_def lookback_def
      microseconds_per_day_def split: option.splits)

lemma sample_article_ages:
  "article_age sample_now old_article = Some (10 * microseconds_per_day)"
  "article_age sample_now plural_article = Some microseconds_per_day"
  "article_age sample_now twin_article = Some microseconds_per_day"
  "article_age sample_now day_old_article = Some microseconds_per_day"
  "article_age sample_now bridge_article = Some microseconds_per_day"
  by (simp_all add: article_age_def old_article_def plural_article_def twin_article_def
      day_old_article_def bridge_article_def sample_now_def instant_def utc_localize_def
      datetime_now_utc_def)

subsection \<open>The sample item against an article on another subject\<close>

lemma md5_chunks_two:
  "length bs = 128 \<Longrightarrow> md5_chunks st bs = md5_chunk (md5_chunk st (take 64 bs)) (drop 64 bs)"
  by (simp add: md5_chunks.simps [of st bs] md5_chunks.simps [of _ "drop 64 bs"]
      md5_chunks.simps [of _ "[]"])

lemma md5_step_eval:
  "md5_step M (A, B, C, D) i =
     (D, of_nat (unat (B + rotl32 (md5_S ! i)
        (of_nat (unat (md5_F i B C D + A + md5_K ! i + M ! md5_g i))))), B, C)"
  by simp

lemma md5_add_eval:
  "md5_add (a0, b0, c0, d0) (A, B, C, D) =
     (of_nat (unat (a0 + A)), of_nat (unat (b0 + B)), of_nat (unat (c0 + C)), of_nat (unat (d0 + D)))"
  by simp

lemma md5_hex_sample_key:
  "md5_hex ''after|approve|approves|begin|city|completed|construction|council|design|expected'' =
     ''7e5de32f4057c919a540f064f7ba0d49''"
  by (simp add: md5_eval md5_chunks_two md5_step_eval md5_add_eval
      del: md5_step.simps md5_add.simps)

lemma md5_hex_bridge_key: "md5_hex ''bridge|harbour|reopens'' = ''26f2d674b45d9311e8efc2ef6c3d4fab''"
  by (simp add: md5_eval)

lemma fuzzy_signature_sample:
  "create_fuzzy_signature sample_title sample_content = ''7e5de32f4057c919a540f064f7ba0d49''"
  unfolding create_fuzzy_signature_eval
  by (simp add: sample_title_def sample_content_def key_word_rx_def text_eval rep_ends_numeral
      md5_hex_sample_key)

lemma fuzzy_signature_bridge:
  "create_fuzzy_signature ''Harbour bridge reopens'' [] = ''26f2d674b45d9311e8efc2ef6c3d4fab''"
  unfolding create_fuzzy_signature_eval
  by (simp add: key_word_rx_def text_eval rep_ends_numeral md5_hex_bridge_key)

lemma normalize_text_sample:
  "normalize_text (sample_title @ '' '' @ take 500 sample_content) =
     ''city council approves new park  city council voted  tuesday  approve funding   new public park near  river  construction expected  begin next spring after  design review is completed''"
  by (simp add: sample_title_def sample_content_def text_eval)

lemma normalize_text_bridge:
  "normalize_text ''Harbour bridge reopens '' = ''harbour bridge reopens''"
  by (simp add: text_eval)

lemma calculate_similarity_le:
  "calculate_similarity a b * real (length a + length b) \<le> 2 * real (min (length a) (length b))"
proof -
  let ?m = "sum_list (map (\<lambda>(i, j, k). k) (matching_blocks a b 0 (length a) 0 (length b)))"
  have "?m \<le> min (length a) (length b)"
    using matching_blocks_sum [of a b 0 "length a" 0 "length b"] by simp
  then have "real ?m \<le> real (min (length a) (length b))"
    by (simp only: of_nat_le_iff)
  then show ?thesis
    by (simp add: calculate_similarity_def ratio_def calculate_ratio_def)
qed

lemma sample_not_similar_to_bridge:
  "\<not> similarity_threshold \<le>
     calculate_similarity (normalize_text (sample_title @ '' '' @ take 500 sample_content))
       ''harbour bridge reopens''"
  using calculate_similarity_le
    [of "normalize_text (sample_title @ '' '' @ take 500 sample_content)" "''harbour bridge reopens''"]
  unfolding normalize_text_sample
  by (simp add: similarity_threshold_def)

lemma duplicate_scan_single_miss:
  assumes "\<not> too_old now a"
    and "fuzzy_hash \<noteq> create_fuzzy_signature (article_title a) (content_or_empty a)"
    and "\<not> similarity_threshold \<le> calculate_similarity current_normalized
           (normalize_text (article_title a @ '' '' @ take 500 (content_or_empty a)))"
  shows "duplicate_scan now fuzzy_hash current_normalized [a] = None"
  using assms by (simp add: Let_def)

lemma sample_scan_bridge:
  "duplicate_scan sample_now (create_fuzzy_signature sample_title sample_content)
     (normalize_text (sample_title @ '' '' @ take 500 sample_content)) [bridge_article] = None"
proof (rule duplicate_scan_single_miss)
  show "\<not> too_old sample_now bridge_article"
    by (simp add: too_old_iff_age sample_article_ages microseconds_per_day_def)
  show "create_fuzzy_signature sample_title sample_content \<noteq>
          create_fuzzy_signature (article_title bridge_article) (content_or_empty bridge_article)"
    by (simp add: fuzzy_signature_sample bridge_article_def content_or_empty_def
        fuzzy_signature_bridge)
  have "normalize_text (article_title bridge_article @ '' '' @
          take 500 (content_or_empty bridge_article)) = ''harbour bridge reopens''"
    by (simp add: bridge_article_def content_or_empty_def normalize_text_bridge)
  then show "\<not> similarity_threshold \<le>
      calculate_similarity (normalize_text (sample_title @ '' '' @ take 500 sample_content))
        (normalize_text (article_title bridge_article @ '' '' @
           take 500 (content_or_empty bridge_article)))"
    by (simp only: sample_not_similar_to_bridge not_False_eq_True)
qed

lemma sample_not_duplicate_of_bridge:
  "is_duplicate fresh_reducer sample_now sample_title sample_content [bridge_article] =
     (fresh_reducer\<lparr>recent_hashes := {create_content_signature sample_title sample_content}\<rparr>,
      False, None)"
  unfolding is_duplicate_def Let_def sample_scan_bridge
  by (simp add: fresh_reducer_def)

section \<open>Properties\<close>

lemma duplicate_scan_kind:
  "duplicate_scan now fuzzy_hash current_normalized existing_articles = Some d \<Longrightarrow>
   d = ''fuzzy_duplicate'' \<or> d = ''similar_content''"
  by (induction existing_articles) (auto simp: Let_def split: if_splits)

lemma is_duplicate_cases:
  assumes "is_duplicate self now title content existing_articles = (self', is_dup, dup_type)"
  shows "(is_dup \<and> self' = self \<and>
            (dup_type = Some ''exact_duplicate'' \<or> dup_type = Some ''fuzzy_duplicate'' \<or>
             dup_type = Some ''similar_content'')) \<or>
         (\<not> is_dup \<and> dup_type = None \<and>
            create_content_signature title content \<notin> recent_hashes self \<and>
            self' = self\<lparr>recent_hashes :=
              insert (create_content_signature title content) (recent_hashes self)\<rparr>)"
proof (cases "create_content_signature title content \<in> recent_hashes self")
  case True
  with assms show ?thesis by (simp add: is_duplicate_def)
next
  case False
  show ?thesis
  proof (cases "duplicate_scan now (create_fuzzy_signature title content)
                  (normalize_text (title @ '' '' @ take 500 content)) existing_articles")
    case None
    with False assms show ?thesis by (auto simp: is_duplicate_def)
  next
    case (Some d)
    from duplicate_scan_kind [OF Some] Some False assms show ?thesis
      by (auto simp: is_duplicate_def)
  qed
qed

text \<open>
  C9. The duplicate detector changes the cache exactly when it reports "not a duplicate",
  and then it inserts the exact signature of the candidate, which was not in the cache;
  when it reports a duplicate of any kind the reducer, and so the cache, is as it was.
\<close>

theorem is_duplicate_cache_effect:
  assumes "is_duplicate self now title content existing_articles = (self', is_dup, dup_type)"
  shows "(if is_dup then self' = self
          else recent_hashes self' =
                 insert (create_content_signature title content) (recent_hashes self) \<and>
               recent_hashes self' \<noteq> recent_hashes self \<and>
               last_cache_cleanup self' = last_cache_cleanup self)"
  using is_duplicate_cases [OF assms] by auto

theorem is_duplicate_cache_effect_witness:
  "is_duplicate fresh_reducer sample_now sample_title sample_content [old_article] =
     (fresh_reducer\<lparr>recent_hashes := {create_content_signature sample_title sample_content}\<rparr>,
      False, None) \<and>
   recent_hashes (fresh_reducer\<lparr>recent_hashes :=
     {create_content_signature sample_title sample_content}\<rparr>) \<noteq> recent_hashes fresh_reducer"
proof -
  have h: "is_duplicate fresh_reducer sample_now sample_title sample_content [old_article] =
     (fresh_reducer\<lparr>recent_hashes := {create_content_signature sample_title sample_content}\<rparr>,
      False, None)"
    by (simp add: is_duplicate_def fresh_reducer_def old_article_too_old)
  from is_duplicate_cache_effect [OF h] h show ?thesis by simp
qed

text \<open>The reasons of a verdict, spelled out: the reasons of the three content classifiers,
  then the duplicate reason when the detector ran and reported one, then the URL reason.\<close>

lemma should_process_article_result:
  "should_process_article self now title content url existing_articles =
     (let dup = (case existing_articles of
                   Some (a # as) \<Rightarrow> is_duplicate self now title content (a # as)
                 | _ \<Rightarrow> (self, False, None));
          rejection_reasons =
            (if is_low_value_content title content then [''low_value_content''] else []) @
            (if is_wire_service_content title content then [''wire_service''] else []) @
            (if is_pr_content title content then [''pr_content''] else []) @
            (if fst (snd dup) then [duplicate_reason (snd (snd dup))] else []) @
            (if is_filtered_url url then [''filtered_url''] else [])
      in (fst dup, rejection_reasons = [], rejection_reasons))"
  by (simp add: should_process_article_def Let_def split: option.split list.split prod.split)

lemma subseq_reasons:
  "subseq ((if a then [x1] else []) @ (if b then [x2] else []) @ (if c then [x3] else []) @
           (if d then [x4] else []) @ (if e then [x5] else [])) [x1, x2, x3, x4, x5]"
  by simp

text \<open>
  C6. In the verdict of \<^verbatim>\<open>should_process_article\<close> the accept flag is true exactly when
  the list of reasons is empty, and the reasons are a subsequence of the fixed order
  low-value, wire-service, promotional, duplicate, URL, where the duplicate reason is one
  of the three duplicate codes.
\<close>

theorem should_process_article_verdict:
  assumes "should_process_article self now title content url existing_articles =
             (self', should_process, rejection_reasons)"
  shows "(should_process \<longleftrightarrow> rejection_reasons = []) \<and>
         (\<exists>dup \<in> {''duplicate_exact_duplicate'', ''duplicate_fuzzy_duplicate'',
                    ''duplicate_similar_content''}.
            subseq rejection_reasons
              [''low_value_content'', ''wire_service'', ''pr_content'', dup, ''filtered_url''])"
proof -
  define dup where "dup = (case existing_articles of
                   Some (a # as) \<Rightarrow> is_duplicate self now title content (a # as)
                 | _ \<Rightarrow> (self, False, None))"
  define R where "R =
            (if is_low_value_content title content then [''low_value_content''] else []) @
            (if is_wire_service_content title content then [''wire_service''] else []) @
            (if is_pr_content title content then [''pr_content''] else []) @
            (if fst (snd dup) then [duplicate_reason (snd (snd dup))] else []) @
            (if is_filtered_url url then [''filtered_url''] else [])"
  have "should_process_article self now title content url existing_articles = (fst dup, R = [], R)"
    unfolding should_process_article_result dup_def R_def Let_def by (rule refl)
  with assms have res: "rejection_reasons = R" and ok: "should_process \<longleftrightarrow> rejection_reasons = []"
    by auto
  have kind: "fst (snd dup) \<Longrightarrow>
      duplicate_reason (snd (snd dup)) \<in> {''duplicate_exact_duplicate'', ''duplicate_fuzzy_duplicate'',
                    ''duplicate_similar_content''}"
  proof (cases existing_articles)
    case None
    then show "fst (snd dup) \<Longrightarrow> ?thesis" by (simp add: dup_def)
  next
    case (Some xs)
    show "fst (snd dup) \<Longrightarrow> ?thesis"
    proof (cases xs)
      case Nil
      assume "fst (snd dup)"
      with Some Nil show ?thesis by (simp add: dup_def)
    next
      case (Cons a as)
      assume d: "fst (snd dup)"
      have "is_duplicate self now title content (a # as) = (fst dup, fst (snd dup), snd (snd dup))"
        using Some Cons by (simp add: dup_def)
      from is_duplicate_cases [OF this] d show ?thesis
        by (auto simp: duplicate_reason_def)
    qed
  qed
  show ?thesis
  proof (cases "fst (snd dup)")
    case True
    from kind [OF True] have "\<exists>d \<in> {''duplicate_exact_duplicate'', ''duplicate_fuzzy_duplicate'',
                    ''duplicate_similar_content''}. duplicate_reason (snd (snd dup)) = d"
      by blast
    then obtain d where d: "d \<in> {''duplicate_exact_duplicate'', ''duplicate_fuzzy_duplicate'',
                    ''duplicate_similar_content''}" "duplicate_reason (snd (snd dup)) = d"
      by blast
    have "subseq rejection_reasons [''low_value_content'', ''wire_service'', ''pr_content'', d, ''filtered_url'']"
      unfolding res R_def d(2) [symmetric] by (rule subseq_reasons)
    with d(1) ok show ?thesis by blast
  next
    case False
    have "subseq rejection_reasons [''low_value_content'', ''wire_service'', ''pr_content'',
            ''duplicate_exact_duplicate'', ''filtered_url'']"
      unfolding res R_def using False
        subseq_reasons [of "is_low_value_content title content" _ "is_wire_service_content title content" _
          "is_pr_content title content" _ False "''duplicate_exact_duplicate''" "is_filtered_url url"]
      by simp
    with ok show ?thesis by blast
  qed
qed

theorem should_process_article_verdict_witness:
  "should_process_article fresh_reducer sample_now sample_title sample_content
     ''https://example.com/press-release/123'' None = (fresh_reducer, False, [''filtered_url'']) \<and>
   (False \<longleftrightarrow> [''filtered_url''] = ([] :: string list)) \<and>
   (\<exists>dup \<in> {''duplicate_exact_duplicate'', ''duplicate_fuzzy_duplicate'',
              ''duplicate_similar_content''}.
      subseq [''filtered_url'']
        [''low_value_content'', ''wire_service'', ''pr_content'', dup, ''filtered_url''])"
proof -
  have h: "should_process_article fresh_reducer sample_now sample_title sample_content
     ''https://example.com/press-release/123'' None = (fresh_reducer, False, [''filtered_url''])"
    by (simp add: should_process_article_result sample_not_low_value sample_not_wire_service
        sample_not_pr press_release_url_filtered)
  from should_process_article_verdict [OF h] h show ?thesis by simp
qed

text \<open>
  C10. When \<^verbatim>\<open>existing_articles\<close> is \<^verbatim>\<open>None\<close> or the empty list, duplicate detection does
  not run: the reducer is returned as it was (nothing is inserted into the cache), the
  verdict is the same for every reducer and clock (the cache is not read), and the verdict
  holds no duplicate reason.
\<close>

theorem should_process_article_without_window:
  assumes "existing_articles = None \<or> existing_articles = Some []"
  shows "fst (should_process_article self now title content url existing_articles) = self \<and>
         snd (should_process_article self now title content url existing_articles) =
           snd (should_process_article other now' title content url existing_articles) \<and>
         (\<forall>dup_type. duplicate_reason dup_type \<notin>
            set (snd (snd (should_process_article self now title content url existing_articles))))"
  using assms
  by (auto simp: should_process_article_result Let_def duplicate_reason_def)

lemma reasons_not_counters:
  assumes "should_process_article self now title content url existing_articles =
             (self', should_process, rejection_reasons)"
    and "r \<in> set rejection_reasons"
  shows "r \<noteq> ''total_input'' \<and> r \<noteq> ''total_filtered'' \<and> r \<noteq> ''processed''"
  using assms
  by (auto simp: should_process_article_result Let_def duplicate_reason_def split: if_splits)

lemma foldl_bump_other: "key \<notin> set reasons \<Longrightarrow> foldl bump stats reasons key = stats key"
  by (induction reasons arbitrary: stats) (auto simp: bump_def)

lemma batch_loop_counts:
  assumes "batch_loop now recent_articles articles (reducer, filtered, stats) = (reducer', filtered', stats')"
    and "stats ''total_filtered'' = Some tf" and "stats ''processed'' = Some p"
  shows "\<exists>ys. filtered' = filtered @ ys \<and> subseq ys articles \<and>
           stats' ''total_input'' = stats ''total_input'' \<and>
           stats' ''processed'' = Some (p + length ys) \<and>
           stats' ''total_filtered'' = Some (tf + (length articles - length ys))"
  using assms
proof (induction articles arbitrary: reducer filtered stats tf p)
  case Nil
  then show ?case by simp
next
  case (Cons d articles)
  obtain r1 ok reasons where spa:
    "should_process_article reducer now (dict_get d ''title'') (dict_get d ''content'')
       (dict_get d ''url'') (Some recent_articles) = (r1, ok, reasons)"
    by (metis prod_cases3)
  show ?case
  proof (cases ok)
    case True
    with spa Cons.prems(1)
    have loop: "batch_loop now recent_articles articles (r1, filtered @ [d], bump stats ''processed'') =
            (reducer', filtered', stats')"
      by (simp add: Let_def)
    have "bump stats ''processed'' ''total_filtered'' = Some tf"
         "bump stats ''processed'' ''processed'' = Some (p + 1)"
      using Cons.prems(2,3) by (simp_all add: bump_def)
    from Cons.IH [OF loop this]
    obtain ys where ys: "filtered' = (filtered @ [d]) @ ys" "subseq ys articles"
        "stats' ''total_input'' = bump stats ''processed'' ''total_input''"
        "stats' ''processed'' = Some (p + 1 + length ys)"
        "stats' ''total_filtered'' = Some (tf + (length articles - length ys))"
      by blast
    have "length ys \<le> length articles"
      using ys(2) by (rule list_emb_length)
    with ys show ?thesis
      by (intro exI [of _ "d # ys"]) (simp add: bump_def)
  next
    case False
    let ?st = "foldl bump (bump stats ''total_filtered'') reasons"
    from False spa Cons.prems(1)
    have loop: "batch_loop now recent_articles articles (r1, filtered, ?st) = (reducer', filtered', stats')"
      by (simp add: Let_def)
    have nk: "''total_input'' \<notin> set reasons" "''total_filtered'' \<notin> set reasons"
        "''processed'' \<notin> set reasons"
      using reasons_not_counters [OF spa] by blast+
    have "?st ''total_filtered'' = Some (tf + 1)" "?st ''processed'' = Some p"
      and ti: "?st ''total_input'' = stats ''total_input''"
      using Cons.prems(2,3) nk by (simp_all add: foldl_bump_other bump_def)
    from Cons.IH [OF loop this(1,2)]
    obtain ys where ys: "filtered' = filtered @ ys" "subseq ys articles"
        "stats' ''total_input'' = ?st ''total_input''"
        "stats' ''processed'' = Some (p + length ys)"
        "stats' ''total_filtered'' = Some (tf + 1 + (length articles - length ys))"
      by blast
    have "length ys \<le> length articles"
      using ys(2) by (rule list_emb_length)
    with ys ti show ?thesis
      by (intro exI [of _ ys]) (auto intro: list_emb_Cons)
  qed
qed

text \<open>
  C7. The statistics of \<^verbatim>\<open>filter_articles_batch\<close>: \<^verbatim>\<open>total_input\<close> is the number of
  articles, \<^verbatim>\<open>processed\<close> is the number of accepted ones, \<^verbatim>\<open>total_filtered\<close> is the
  difference, so \<^verbatim>\<open>total_input = len(accepted) + total_filtered\<close>; and the accepted
  articles are a subsequence of the input, in its order.
\<close>

theorem filter_articles_batch_statistics:
  assumes "filter_articles_batch reducer local_now now articles recent_articles =
             (reducer', accepted, stats)"
  shows "\<exists>total_filtered.
           stats ''total_input'' = Some (length articles) \<and>
           stats ''total_filtered'' = Some total_filtered \<and>
           stats ''processed'' = Some (length accepted) \<and>
           length articles = length accepted + total_filtered \<and>
           total_filtered = length articles - length accepted \<and>
           subseq accepted articles"
proof -
  have "initial_stats (length articles) ''total_filtered'' = Some 0"
       "initial_stats (length articles) ''processed'' = Some 0"
       and ti: "initial_stats (length articles) ''total_input'' = Some (length articles)"
    by (simp_all add: initial_stats_def)
  from batch_loop_counts [OF assms [unfolded filter_articles_batch_def] this(1,2)]
  obtain ys where ys: "accepted = [] @ ys" "subseq ys articles"
      "stats ''total_input'' = initial_stats (length articles) ''total_input''"
      "stats ''processed'' = Some (0 + length ys)"
      "stats ''total_filtered'' = Some (0 + (length articles - length ys))"
    by blast
  have "length ys \<le> length articles"
    using ys(2) by (rule list_emb_length)
  with ys ti show ?thesis by simp
qed

theorem should_process_article_without_window_witness:
  "fst (should_process_article fresh_reducer sample_now sample_title sample_content sample_url None) =
     fresh_reducer \<and>
   snd (should_process_article fresh_reducer sample_now sample_title sample_content sample_url None) =
     (True, []) \<and>
   snd (should_process_article
          (fresh_reducer\<lparr>recent_hashes := {create_content_signature sample_title sample_content}\<rparr>)
          0 sample_title sample_content sample_url None) = (True, [])"
proof -
  have v: "snd (should_process_article fresh_reducer sample_now sample_title sample_content
             sample_url None) = (True, [])"
    by (simp add: should_process_article_result sample_not_low_value sample_not_wire_service
        sample_not_pr sample_url_not_filtered)
  from should_process_article_without_window
         [of None fresh_reducer sample_now sample_title sample_content sample_url
            "fresh_reducer\<lparr>recent_hashes := {create_content_signature sample_title sample_content}\<rparr>" 0]
       v
  show ?thesis by simp
qed

theorem filter_articles_batch_statistics_witness:
  "\<exists>reducer' stats.
     filter_articles_batch fresh_reducer 0 sample_now [sample_item] [] =
       (reducer', [sample_item], stats) \<and>
     stats ''total_input'' = Some 1 \<and> stats ''total_filtered'' = Some 0 \<and>
     stats ''processed'' = Some 1"
proof -
  obtain reducer' accepted stats where
    h: "filter_articles_batch fresh_reducer 0 sample_now [sample_item] [] = (reducer', accepted, stats)"
    by (metis prod_cases3)
  have "fst (snd (filter_articles_batch fresh_reducer 0 sample_now [sample_item] [])) = [sample_item]"
    by (simp add: filter_articles_batch_def should_process_article_result sample_item_fields
        sample_not_low_value sample_not_wire_service sample_not_pr sample_url_not_filtered)
  with h have acc: "accepted = [sample_item]" by simp
  from filter_articles_batch_statistics [OF h] acc h show ?thesis by auto
qed

text \<open>
  C2. The normalizer is not idempotent. It collapses whitespace first and removes
  punctuation and stop words afterwards, so a removed word leaves the two spaces around it
  side by side: \<^verbatim>\<open>"x the y"\<close> becomes \<^verbatim>\<open>"x  y"\<close>, and a second pass collapses that to
  \<^verbatim>\<open>"x y"\<close>.
\<close>

theorem normalize_text_second_pass:
  "normalize_text ''x the y'' = ''x  y'' \<and>
   normalize_text (normalize_text ''x the y'') = ''x y'' \<and>
   normalize_text (normalize_text ''x the y'') \<noteq> normalize_text ''x the y''"
proof -
  have 1: "normalize_text ''x the y'' = ''x  y''"
    by (simp add: text_eval)
  have 2: "normalize_text ''x  y'' = ''x y''"
    by (simp add: text_eval)
  show ?thesis
    unfolding 1 2 by simp
qed

text \<open>
  C4. An article of the window takes part in the fuzzy and the similarity check unless it
  has a creation time and the whole days from that time to now are more than 7. An
  article that is seven and a half days old is older than the 7-day lookback and still
  takes part: here it makes the candidate a fuzzy duplicate.
\<close>

theorem is_duplicate_week_old_article:
  "instant (datetime_now_utc sample_now) -
     instant (utc_localize (the (article_created_at week_old_article))) =
     7 * microseconds_per_day + microseconds_per_day div 2 \<and>
   \<not> too_old sample_now week_old_article \<and>
   is_duplicate fresh_reducer sample_now sample_title sample_content [week_old_article] =
     (fresh_reducer, True, Some ''fuzzy_duplicate'')"
proof -
  have age: "instant (datetime_now_utc sample_now) -
     instant (utc_localize (the (article_created_at week_old_article))) =
     7 * microseconds_per_day + microseconds_per_day div 2"
    by (simp add: week_old_article_def sample_now_def instant_def utc_localize_def
        datetime_now_utc_def microseconds_per_day_def)
  have young: "\<not> too_old sample_now week_old_article"
    by (simp add: too_old_def week_old_article_def sample_now_def timedelta_days_def instant_def
        utc_localize_def datetime_now_utc_def microseconds_per_day_def)
  have "content_or_empty week_old_article = sample_content"
    "article_title week_old_article = sample_title"
    by (simp_all add: content_or_empty_def week_old_article_def)
  with young have "is_duplicate fresh_reducer sample_now sample_title sample_content [week_old_article] =
     (fresh_reducer, True, Some ''fuzzy_duplicate'')"
    by (simp add: is_duplicate_def fresh_reducer_def)
  with age young show ?thesis by simp
qed

text \<open>The verdict of the duplicate detector, read off the cache and the scan of the window.\<close>

lemma is_duplicate_verdict:
  "snd (is_duplicate self now title content existing_articles) =
     (if create_content_signature title content \<in> recent_hashes self
      then (True, Some ''exact_duplicate'')
      else case duplicate_scan now (create_fuzzy_signature title content)
                  (normalize_text (title @ '' '' @ take 500 content)) existing_articles of
             Some dup_type \<Rightarrow> (True, Some dup_type)
           | None \<Rightarrow> (False, None))"
  by (simp add: is_duplicate_def Let_def split: option.split)






text \<open>
  C8, as stated, fails for the empty window: \<^verbatim>\<open>should_process_article\<close> runs the duplicate
  check only when the window is not empty, so with an empty window nothing is inserted into
  the cache and both copies of the sample item, which triggers no filter, are accepted.
\<close>

theorem filter_articles_batch_twice_empty_window:
  "\<not> is_low_value_content sample_title sample_content \<and>
   \<not> is_wire_service_content sample_title sample_content \<and>
   \<not> is_pr_content sample_title sample_content \<and>
   \<not> is_filtered_url sample_url \<and>
   fst (snd (filter_articles_batch fresh_reducer 0 sample_now [sample_item, sample_item] [])) =
     [sample_item, sample_item]"
  by (simp add: filter_articles_batch_def should_process_article_result sample_item_fields
      sample_not_low_value sample_not_wire_service sample_not_pr sample_url_not_filtered)

text \<open>
  C8, amended. Two items with the same title and body are submitted in one batch, neither
  triggers the low-value, wire-service, promotional or URL filter, the window is not empty,
  and the duplicate detector reports the first item as not a duplicate. Then the first
  item is accepted, the second is rejected with the one reason
  \<^verbatim>\<open>duplicate_exact_duplicate\<close>, and the batch returns the first item alone.
\<close>

theorem filter_articles_batch_twice:
  assumes "dict_get d1 ''title'' = title" "dict_get d1 ''content'' = content"
      "dict_get d1 ''url'' = url1"
    and "dict_get d2 ''title'' = title" "dict_get d2 ''content'' = content"
      "dict_get d2 ''url'' = url2"
    and "\<not> is_low_value_content title content" "\<not> is_wire_service_content title content"
      "\<not> is_pr_content title content"
    and "\<not> is_filtered_url url1" "\<not> is_filtered_url url2"
    and "recent_articles \<noteq> []"
    and "is_duplicate (cleanup_cache reducer local_now) now title content recent_articles =
           (reducer1, False, None)"
  shows "should_process_article (cleanup_cache reducer local_now) now title content url1
           (Some recent_articles) = (reducer1, True, []) \<and>
         should_process_article reducer1 now title content url2 (Some recent_articles) =
           (reducer1, False, [''duplicate_exact_duplicate'']) \<and>
         (\<exists>stats. filter_articles_batch reducer local_now now [d1, d2] recent_articles =
            (reducer1, [d1], stats) \<and>
            stats ''processed'' = Some 1 \<and> stats ''total_filtered'' = Some 1 \<and>
            stats ''duplicate_exact_duplicate'' = Some 1)"
proof -
  obtain a as where ne: "recent_articles = a # as"
    using assms(12) by (cases recent_articles) auto
  have first: "should_process_article (cleanup_cache reducer local_now) now title content url1
           (Some recent_articles) = (reducer1, True, [])"
    using assms(7-10,13) by (simp add: should_process_article_result ne)
  have "create_content_signature title content \<in> recent_hashes reducer1"
    using is_duplicate_cases [OF assms(13)] by auto
  then have dup: "is_duplicate reducer1 now title content recent_articles =
      (reducer1, True, Some ''exact_duplicate'')"
    by (simp add: is_duplicate_def)
  have second: "should_process_article reducer1 now title content url2 (Some recent_articles) =
           (reducer1, False, [''duplicate_exact_duplicate''])"
    using assms(7-9,11) dup by (simp add: should_process_article_result ne duplicate_reason_def)
  have "filter_articles_batch reducer local_now now [d1, d2] recent_articles =
      (reducer1, [d1],
       bump (bump (bump (initial_stats (length [d1, d2])) ''processed'') ''total_filtered'')
         ''duplicate_exact_duplicate'')"
    using first second by (simp add: filter_articles_batch_def assms(1-6) del: list.size)
  moreover have "bump (bump (bump (initial_stats (length [d1, d2])) ''processed'') ''total_filtered'')
         ''duplicate_exact_duplicate'' ''processed'' = Some 1"
    "bump (bump (bump (initial_stats (length [d1, d2])) ''processed'') ''total_filtered'')
         ''duplicate_exact_duplicate'' ''total_filtered'' = Some 1"
    "bump (bump (bump (initial_stats (length [d1, d2])) ''processed'') ''total_filtered'')
         ''duplicate_exact_duplicate'' ''duplicate_exact_duplicate'' = Some 1"
    by (simp_all add: bump_def initial_stats_def)
  ultimately show ?thesis
    using first second by blast
qed

lemma mirror_url_not_filtered: "\<not> is_filtered_url mirror_url"
  unfolding is_filtered_url_def filtered_patterns_def mirror_url_def
  apply (simp only: list.set bex_simps append.simps)
  apply (simp add: text_eval)
  done

lemma mirror_item_fields:
  "dict_get mirror_item ''title'' = sample_title"
  "dict_get mirror_item ''content'' = sample_content"
  "dict_get mirror_item ''url'' = mirror_url"
  by (simp_all add: dict_get_def mirror_item_def)

theorem filter_articles_batch_twice_witness:
  "in_lookback sample_now bridge_article \<and>
   should_process_article (cleanup_cache fresh_reducer 0) sample_now sample_title sample_content
     sample_url (Some [bridge_article]) =
     (fresh_reducer\<lparr>recent_hashes := {create_content_signature sample_title sample_content}\<rparr>,
      True, []) \<and>
   should_process_article
     (fresh_reducer\<lparr>recent_hashes := {create_content_signature sample_title sample_content}\<rparr>)
     sample_now sample_title sample_content mirror_url (Some [bridge_article]) =
     (fresh_reducer\<lparr>recent_hashes := {create_content_signature sample_title sample_content}\<rparr>,
      False, [''duplicate_exact_duplicate'']) \<and>
   (\<exists>stats. filter_articles_batch fresh_reducer 0 sample_now [sample_item, mirror_item]
              [bridge_article] =
      (fresh_reducer\<lparr>recent_hashes := {create_content_signature sample_title sample_content}\<rparr>,
       [sample_item], stats) \<and>
      stats ''processed'' = Some 1 \<and> stats ''total_filtered'' = Some 1 \<and>
      stats ''duplicate_exact_duplicate'' = Some 1)"
proof -
  have c: "cleanup_cache fresh_reducer 0 = fresh_reducer"
    by (simp add: cleanup_cache_def fresh_reducer_def hash_cache_expiry_def)
  have ne: "[bridge_article] \<noteq> []" by simp
  have d: "is_duplicate (cleanup_cache fresh_reducer 0) sample_now sample_title sample_content
             [bridge_article] =
           (fresh_reducer\<lparr>recent_hashes := {create_content_signature sample_title sample_content}\<rparr>,
            False, None)"
    unfolding c by (rule sample_not_duplicate_of_bridge)
  have lb: "in_lookback sample_now bridge_article"
    by (simp add: in_lookback_def sample_article_ages lookback_def microseconds_per_day_def)
  from filter_articles_batch_twice [OF sample_item_fields mirror_item_fields
          sample_not_low_value sample_not_wire_service sample_not_pr sample_url_not_filtered
          mirror_url_not_filtered ne d] lb
  show ?thesis by simp
qed

lemma duplicate_scan_first_match:
  assumes "\<forall>a \<in> set existing_articles. \<not> past_lookback_within_days now a"
  shows "duplicate_scan now (create_fuzzy_signature title content)
     (normalize_text (title @ '' '' @ take 500 content)) existing_articles =
   (case first_match now title content existing_articles of
      None \<Rightarrow> None
    | Some a \<Rightarrow>
        Some (if fuzzy_match title content a then ''fuzzy_duplicate'' else ''similar_content''))"
  using assms
proof (induction existing_articles)
  case Nil
  then show ?case by (simp add: first_match_def)
next
  case (Cons a existing_articles)
  then have a: "in_lookback now a \<longleftrightarrow> \<not> too_old now a"
    and rest: "\<forall>a \<in> set existing_articles. \<not> past_lookback_within_days now a"
    by (simp_all add: in_lookback_iff_not_too_old)
  from Cons.IH [OF rest] a show ?case
    by (simp add: first_match_def fuzzy_match_def similar_match_def Let_def)
qed

text \<open>
  C3, as stated, fails: the fuzzy check and the similarity check are not two passes over
  the window but two tests on each article in turn. With a window of two articles that are
  one day old, the first similar to the candidate without sharing its fuzzy signature and
  the second sharing it, the reason is \<^verbatim>\<open>similar_content\<close>.
\<close>

theorem is_duplicate_similar_before_fuzzy:
  "create_content_signature ''earthquake'' [] \<notin> recent_hashes fresh_reducer \<and>
   in_lookback sample_now plural_article \<and> in_lookback sample_now twin_article \<and>
   \<not> too_old sample_now twin_article \<and>
   create_fuzzy_signature ''earthquake'' [] =
     create_fuzzy_signature (article_title twin_article) (content_or_empty twin_article) \<and>
   is_duplicate fresh_reducer sample_now ''earthquake'' [] [plural_article, twin_article] =
     (fresh_reducer, True, Some ''similar_content'')"
proof -
  have "\<not> too_old sample_now plural_article" "\<not> too_old sample_now twin_article"
    by (simp_all add: too_old_iff_age sample_article_ages microseconds_per_day_def)
  moreover have "in_lookback sample_now plural_article" "in_lookback sample_now twin_article"
    by (simp_all add: in_lookback_def sample_article_ages lookback_def microseconds_per_day_def)
  moreover have "similarity_threshold \<le> calculate_similarity ''earthquake'' ''earthquakes''"
    by (simp add: similarity_earthquake similarity_threshold_def)
  ultimately show ?thesis
    by (simp add: is_duplicate_def fresh_reducer_def plural_article_def twin_article_def
        content_or_empty_def fuzzy_signature_earthquake normalize_text_samples)
qed

text \<open>
  C3, amended. Take a window in which no article has an age that is over the 7-day
  lookback and still under 8 whole days. The detector reports \<^verbatim>\<open>exact_duplicate\<close> when
  the exact signature of the candidate is in the cache. Otherwise it goes through the
  window once, in order, and the first article within the lookback that shares the fuzzy
  signature of the candidate or is similar to it with a ratio of 0.8 or more decides:
  \<^verbatim>\<open>fuzzy_duplicate\<close> when that article shares the fuzzy signature, \<^verbatim>\<open>similar_content\<close>
  otherwise. With no such article the candidate is not a duplicate.
\<close>

theorem is_duplicate_first_match:
  assumes "\<forall>a \<in> set existing_articles. \<not> past_lookback_within_days now a"
  shows "snd (is_duplicate self now title content existing_articles) =
     (if create_content_signature title content \<in> recent_hashes self
      then (True, Some ''exact_duplicate'')
      else case first_match now title content existing_articles of
             None \<Rightarrow> (False, None)
           | Some a \<Rightarrow>
               (True, Some (if fuzzy_match title content a then ''fuzzy_duplicate''
                            else ''similar_content'')))"
  unfolding is_duplicate_verdict duplicate_scan_first_match [OF assms]
  by (simp split: option.split)

theorem is_duplicate_first_match_witness:
  "\<not> past_lookback_within_days sample_now old_article \<and>
   \<not> past_lookback_within_days sample_now day_old_article \<and>
   \<not> in_lookback sample_now old_article \<and> in_lookback sample_now day_old_article \<and>
   first_match sample_now sample_title sample_content [old_article, day_old_article] =
     Some day_old_article \<and>
   fuzzy_match sample_title sample_content day_old_article \<and>
   snd (is_duplicate fresh_reducer sample_now sample_title sample_content
          [old_article, day_old_article]) = (True, Some ''fuzzy_duplicate'')"
proof -
  have gap: "\<not> past_lookback_within_days sample_now old_article"
      "\<not> past_lookback_within_days sample_now day_old_article"
    by (simp_all add: past_lookback_within_days_def sample_article_ages lookback_def
        microseconds_per_day_def)
  then have h: "\<forall>a \<in> set [old_article, day_old_article].
      \<not> past_lookback_within_days sample_now a"
    by simp
  have lb: "\<not> in_lookback sample_now old_article" "in_lookback sample_now day_old_article"
    by (simp_all add: in_lookback_def sample_article_ages lookback_def microseconds_per_day_def)
  have fz: "fuzzy_match sample_title sample_content day_old_article"
    by (simp add: fuzzy_match_def day_old_article_def content_or_empty_def)
  have fm: "first_match sample_now sample_title sample_content [old_article, day_old_article] =
     Some day_old_article"
    using lb fz by (simp add: first_match_def)
  from is_duplicate_first_match [OF h, of fresh_reducer sample_title sample_content] fm fz gap lb
  show ?thesis by (simp add: fresh_reducer_def)
qed




end
